theory Spec2Isabelle
  imports Main "HOL-Library.Sublist" "HOL-Library.Multiset"
begin

section \<open>Date values\<close>

text \<open>
  A JavaScript \<^verbatim>\<open>Date\<close> is its time value: the number of milliseconds since
  1970-01-01T00:00:00Z. Every Date the scheduling code handles comes from
  \<^verbatim>\<open>new Date()\<close> or from day arithmetic on such a value, so it is a valid
  (non-NaN) instant. The methods the code calls are defined as ECMAScript defines
  them, under the names of the standard's abstract operations; the range limit of the
  time value (\<^verbatim>\<open>TimeClip\<close>) is not modelled.

  The local time zone is a parameter \<open>tz\<close>: the value of
  \<^verbatim>\<open>getTimezoneOffset()\<close>, in minutes, UTC minus local time (180 for UTC-3).
  It is taken to be the same for every instant (no daylight-saving change).
\<close>

type_synonym instant = int

definition msPerSecond :: int where
  "msPerSecond = 1000"

definition msPerMinute :: int where
  "msPerMinute = 60 * 1000"

definition msPerHour :: int where
  "msPerHour = 60 * 60 * 1000"

definition msPerDay :: int where
  "msPerDay = 24 * 60 * 60 * 1000"

definition Day :: "int \<Rightarrow> int" where
  "Day t = t div msPerDay"

definition TimeWithinDay :: "int \<Rightarrow> int" where
  "TimeWithinDay t = t mod msPerDay"

definition DayFromYear :: "int \<Rightarrow> int" where
  "DayFromYear y =
     365 * (y - 1970) + (y - 1969) div 4 - (y - 1901) div 100 + (y - 1601) div 400"

definition InLeapYear :: "int \<Rightarrow> bool" where
  \<comment> \<open>of a year: it has 366 days\<close>
  "InLeapYear y = (y mod 4 = 0 \<and> (y mod 100 \<noteq> 0 \<or> y mod 400 = 0))"

definition DaysInYear :: "int \<Rightarrow> int" where
  "DaysInYear y = (if InLeapYear y then 366 else 365)"

text \<open>
  The year of a day is the largest \<open>y\<close> with \<open>DayFromYear y \<le> day\<close>. It is found
  from an estimate by stepping down while the year starts after the day and up while
  the next year starts at or before it. The search ends because each year starts at
  least 365 days after the one before, which the next lemmas establish.
\<close>

lemma div_succ:
  fixes x n :: int
  assumes n: "0 < n"
  shows "(x + 1) div n = x div n + (if n dvd x + 1 then 1 else 0)"
proof (cases "n dvd x + 1")
  case True
  then obtain k where k: "x + 1 = n * k" by (auto simp: dvd_def)
  then have "x = n * (k - 1) + (n - 1)" by (simp add: algebra_simps)
  then have "x div n = k - 1"
    using n by (intro int_div_pos_eq [where r = "n - 1"]) simp_all
  moreover have "(x + 1) div n = k" using k n by simp
  ultimately show ?thesis using True by simp
next
  case False
  let ?q = "x div n" and ?r = "x mod n"
  have r: "0 \<le> ?r" "?r < n" using n by simp_all
  have "?r + 1 \<noteq> n"
  proof
    assume e: "?r + 1 = n"
    have "x + 1 = n * ?q + (?r + 1)" using mult_div_mod_eq [of n x] by linarith
    also have "\<dots> = n * (?q + 1)" unfolding e by (simp add: algebra_simps)
    finally have "x + 1 = n * (?q + 1)" .
    then have "n dvd x + 1" by (metis dvd_triv_left)
    with False show False by simp
  qed
  with r have "?r + 1 < n" by simp
  moreover have "x + 1 = n * ?q + (?r + 1)" using mult_div_mod_eq [of n x] by linarith
  ultimately have "(x + 1) div n = ?q"
    using r by (intro int_div_pos_eq [where r = "?r + 1"]) simp_all
  with False show ?thesis by simp
qed

lemma DayFromYear_Suc: "DayFromYear (y + 1) = DayFromYear y + DaysInYear y"
proof -
  have "(4::int) dvd 1968" "(100::int) dvd 1900" "(400::int) dvd 1600" by simp_all
  then have shift: "(4::int) dvd y - 1968 \<longleftrightarrow> 4 dvd y"
    "(100::int) dvd y - 1900 \<longleftrightarrow> 100 dvd y" "(400::int) dvd y - 1600 \<longleftrightarrow> 400 dvd y"
    by (simp_all add: dvd_diff_left_iff)
  have "(100::int) dvd 400" "(4::int) dvd 100" by simp_all
  then have chain: "(400::int) dvd y \<Longrightarrow> 100 dvd y" "(100::int) dvd y \<Longrightarrow> 4 dvd y"
    by (blast intro: dvd_trans)+
  have a: "(y + 1 - 1969) div 4 = (y - 1969) div 4 + (if 4 dvd y then 1 else 0)"
    using div_succ [of 4 "y - 1969"] shift(1) by (simp add: algebra_simps)
  have b: "(y + 1 - 1901) div 100 = (y - 1901) div 100 + (if 100 dvd y then 1 else 0)"
    using div_succ [of 100 "y - 1901"] shift(2) by (simp add: algebra_simps)
  have c: "(y + 1 - 1601) div 400 = (y - 1601) div 400 + (if 400 dvd y then 1 else 0)"
    using div_succ [of 400 "y - 1601"] shift(3) by (simp add: algebra_simps)
  have leap: "InLeapYear y \<longleftrightarrow> 4 dvd y \<and> (\<not> 100 dvd y \<or> 400 dvd y)"
    by (simp add: InLeapYear_def mod_eq_0_iff_dvd)
  have d: "DayFromYear (y + 1) - DayFromYear y =
      365 + (if 4 dvd y then 1 else 0) - (if 100 dvd y then 1 else 0)
        + (if 400 dvd y then 1 else 0)"
    unfolding DayFromYear_def a b c by (simp add: algebra_simps)
  show ?thesis
    using d chain
    by (cases "4 dvd y"; cases "100 dvd y"; cases "400 dvd y")
       (simp_all add: DaysInYear_def leap)
qed

lemma DayFromYear_succ_ge: "DayFromYear y + 365 \<le> DayFromYear (y + 1)"
  by (simp add: DayFromYear_Suc DaysInYear_def)

lemma DayFromYear_pred: "DayFromYear (y - 1) + 365 \<le> DayFromYear y"
  using DayFromYear_succ_ge [of "y - 1"] by simp

function yearDown :: "int \<Rightarrow> int \<Rightarrow> int" where
  "yearDown day y = (if day < DayFromYear y then yearDown day (y - 1) else y)"
  by pat_completeness auto
termination
proof (relation "measure (\<lambda>(day, y). nat (DayFromYear y - day))")
  show "wf (measure (\<lambda>(day, y). nat (DayFromYear y - day)))" by simp
next
  fix day y :: int
  assume "day < DayFromYear y"
  with DayFromYear_pred [of y]
  show "((day, y - 1), (day, y)) \<in> measure (\<lambda>(day, y). nat (DayFromYear y - day))"
    by simp
qed

function yearUp :: "int \<Rightarrow> int \<Rightarrow> int" where
  "yearUp day y = (if DayFromYear (y + 1) \<le> day then yearUp day (y + 1) else y)"
  by pat_completeness auto
termination
proof (relation "measure (\<lambda>(day, y). nat (day + 1 - DayFromYear (y + 1)))")
  show "wf (measure (\<lambda>(day, y). nat (day + 1 - DayFromYear (y + 1))))" by simp
next
  fix day y :: int
  assume "DayFromYear (y + 1) \<le> day"
  with DayFromYear_succ_ge [of "y + 1"]
  show "((day, y + 1), (day, y)) \<in> measure (\<lambda>(day, y). nat (day + 1 - DayFromYear (y + 1)))"
    by simp
qed

declare yearDown.simps [simp del] yearUp.simps [simp del]

definition YearFromDay :: "int \<Rightarrow> int" where
  "YearFromDay day = yearUp day (yearDown day (1970 + day div 365))"

definition YearFromTime :: "int \<Rightarrow> int" where
  "YearFromTime t = YearFromDay (Day t)"

definition DayWithinYear :: "int \<Rightarrow> int" where
  "DayWithinYear t = Day t - DayFromYear (YearFromTime t)"

definition leapDay :: "int \<Rightarrow> int" where
  \<comment> \<open>1 in a leap year, 0 otherwise\<close>
  "leapDay y = (if InLeapYear y then 1 else 0)"

definition monthStart :: "int \<Rightarrow> int \<Rightarrow> int" where
  \<comment> \<open>the day within year \<open>y\<close> on which month \<open>m\<close> (0 to 11) starts\<close>
  "monthStart y m =
     (if m = 0 then 0 else if m = 1 then 31
      else [59, 90, 120, 151, 181, 212, 243, 273, 304, 334] ! nat (m - 2) + leapDay y)"

definition MonthFromTime :: "int \<Rightarrow> int" where
  "MonthFromTime t =
     (let d = DayWithinYear t; y = YearFromTime t in
      if d < monthStart y 1 then 0 else if d < monthStart y 2 then 1
      else if d < monthStart y 3 then 2 else if d < monthStart y 4 then 3
      else if d < monthStart y 5 then 4 else if d < monthStart y 6 then 5
      else if d < monthStart y 7 then 6 else if d < monthStart y 8 then 7
      else if d < monthStart y 9 then 8 else if d < monthStart y 10 then 9
      else if d < monthStart y 11 then 10 else 11)"

definition DateFromTime :: "int \<Rightarrow> int" where
  "DateFromTime t = DayWithinYear t - monthStart (YearFromTime t) (MonthFromTime t) + 1"

definition WeekDay :: "int \<Rightarrow> int" where
  "WeekDay t = (Day t + 4) mod 7"

definition HourFromTime :: "int \<Rightarrow> int" where
  "HourFromTime t = (t div msPerHour) mod 24"

definition MinFromTime :: "int \<Rightarrow> int" where
  "MinFromTime t = (t div msPerMinute) mod 60"

definition SecFromTime :: "int \<Rightarrow> int" where
  "SecFromTime t = (t div msPerSecond) mod 60"

definition msFromTime :: "int \<Rightarrow> int" where
  "msFromTime t = t mod msPerSecond"

definition LocalTime :: "int \<Rightarrow> int \<Rightarrow> int" where
  "LocalTime tz t = t - tz * msPerMinute"

definition UTC :: "int \<Rightarrow> int \<Rightarrow> int" where
  "UTC tz t = t + tz * msPerMinute"

definition MakeTime :: "int \<Rightarrow> int \<Rightarrow> int \<Rightarrow> int \<Rightarrow> int" where
  "MakeTime hour minute sec ms =
     hour * msPerHour + minute * msPerMinute + sec * msPerSecond + ms"

definition MakeDay :: "int \<Rightarrow> int \<Rightarrow> int \<Rightarrow> int" where
  "MakeDay year month date =
     (let ym = year + month div 12; mn = month mod 12 in
      DayFromYear ym + monthStart ym mn + date - 1)"

definition MakeDate :: "int \<Rightarrow> int \<Rightarrow> int" where
  "MakeDate day time = day * msPerDay + time"

text \<open>The methods of \<^verbatim>\<open>Date\<close> the code calls, and the constructor from components.\<close>

definition getFullYear :: "int \<Rightarrow> instant \<Rightarrow> int" where
  "getFullYear tz d = YearFromTime (LocalTime tz d)"

definition getMonth :: "int \<Rightarrow> instant \<Rightarrow> int" where
  "getMonth tz d = MonthFromTime (LocalTime tz d)"

definition getDate :: "int \<Rightarrow> instant \<Rightarrow> int" where
  "getDate tz d = DateFromTime (LocalTime tz d)"

definition newDate :: "int \<Rightarrow> int \<Rightarrow> int \<Rightarrow> int \<Rightarrow> nat \<Rightarrow> nat \<Rightarrow> instant" where
  \<comment> \<open>\<^verbatim>\<open>new Date(year, month, date, hours, minutes)\<close>, local time; a year from 0 to 99
      is read as 1900 + year\<close>
  "newDate tz year month date hours minutes =
     (let yr = (if 0 \<le> year \<and> year \<le> 99 then 1900 + year else year) in
      UTC tz (MakeDate (MakeDay yr month date) (MakeTime (int hours) (int minutes) 0 0)))"

definition setDate :: "int \<Rightarrow> instant \<Rightarrow> int \<Rightarrow> instant" where
  "setDate tz d date =
     (let t = LocalTime tz d in
      UTC tz (MakeDate (MakeDay (YearFromTime t) (MonthFromTime t) date) (TimeWithinDay t)))"

definition setHours :: "int \<Rightarrow> instant \<Rightarrow> int \<Rightarrow> int \<Rightarrow> int \<Rightarrow> int \<Rightarrow> instant" where
  "setHours tz d hour minute sec ms =
     (let t = LocalTime tz d in UTC tz (MakeDate (Day t) (MakeTime hour minute sec ms)))"

section \<open>Texts\<close>

definition digitChar :: "nat \<Rightarrow> char" where
  "digitChar n = ''0123456789'' ! (n mod 10)"

function showNat :: "nat \<Rightarrow> string" where
  \<comment> \<open>the decimal digits of a number\<close>
  "showNat n = (if n < 10 then [digitChar n] else showNat (n div 10) @ [digitChar n])"
  by pat_completeness auto
termination
  by (relation "measure id") auto

declare showNat.simps [simp del]

definition ToZeroPaddedDecimalString :: "nat \<Rightarrow> nat \<Rightarrow> string" where
  "ToZeroPaddedDecimalString n minLength =
     (let s = showNat n in replicate (minLength - length s) (CHR ''0'') @ s)"

definition digitVal :: "char \<Rightarrow> nat option" where
  \<comment> \<open>the value of a decimal digit; \<open>None\<close> for any other character\<close>
  "digitVal c = map_of (zip ''0123456789'' [0, 1, 2, 3, 4, 5, 6, 7, 8, 9]) c"

definition isDigit :: "char \<Rightarrow> bool" where
  "isDigit c = (digitVal c \<noteq> None)"

fun digitsVal :: "nat \<Rightarrow> string \<Rightarrow> nat option" where
  "digitsVal acc [] = Some acc"
| "digitsVal acc (c # cs) =
     (case digitVal c of None \<Rightarrow> None | Some v \<Rightarrow> digitsVal (10 * acc + v) cs)"

definition Number :: "string \<Rightarrow> nat option" where
  \<comment> \<open>\<^verbatim>\<open>Number(text)\<close> on the texts the code applies it to: a run of decimal
      digits is its value, the empty text is 0; \<open>None\<close> is NaN.\<close>
  "Number s = digitsVal 0 s"

fun split :: "char \<Rightarrow> string \<Rightarrow> string list" where
  \<comment> \<open>\<^verbatim>\<open>text.split(sep)\<close> for a separator of one character\<close>
  "split sep [] = [[]]"
| "split sep (c # cs) =
     (if c = sep then [] # split sep cs
      else (case split sep cs of [] \<Rightarrow> [[c]] | p # ps \<Rightarrow> (c # p) # ps))"

definition first :: "string list \<Rightarrow> string" where
  \<comment> \<open>\<^verbatim>\<open>parts[0]\<close> of the result of a split, which is never empty\<close>
  "first parts = (case parts of [] \<Rightarrow> [] | x # rest \<Rightarrow> x)"

text \<open>
  \<^verbatim>\<open>toISOString()\<close> prints the UTC fields as YYYY-MM-DDTHH:mm:ss.sssZ; a year outside
  0 to 9999 is printed with a sign and six digits.
\<close>

definition isoYearText :: "int \<Rightarrow> string" where
  "isoYearText y =
     (if 0 \<le> y \<and> y \<le> 9999 then ToZeroPaddedDecimalString (nat y) 4
      else (if 0 < y then ''+'' else ''-'') @ ToZeroPaddedDecimalString (nat \<bar>y\<bar>) 6)"

definition isoDateText :: "int \<Rightarrow> string" where
  "isoDateText t =
     isoYearText (YearFromTime t) @ ''-''
       @ ToZeroPaddedDecimalString (nat (MonthFromTime t + 1)) 2 @ ''-''
       @ ToZeroPaddedDecimalString (nat (DateFromTime t)) 2"

definition isoTimeText :: "int \<Rightarrow> string" where
  "isoTimeText t =
     ToZeroPaddedDecimalString (nat (HourFromTime t)) 2 @ '':''
       @ ToZeroPaddedDecimalString (nat (MinFromTime t)) 2 @ '':''
       @ ToZeroPaddedDecimalString (nat (SecFromTime t)) 2 @ ''.''
       @ ToZeroPaddedDecimalString (nat (msFromTime t)) 3 @ ''Z''"

definition toISOString :: "instant \<Rightarrow> string" where
  "toISOString d = isoDateText d @ ''T'' @ isoTimeText d"

definition toISODate :: "instant \<Rightarrow> string" where
  \<comment> \<open>\<^verbatim>\<open>date.toISOString().split('T')[0]\<close>\<close>
  "toISODate d = first (split (CHR ''T'') (toISOString d))"

text \<open>
  \<^verbatim>\<open>toDateString()\<close> prints the local fields: the names of the weekday and of the
  month, the day of the month in two digits, and the year in at least four digits
  (\<^verbatim>\<open>Sat Jan 08 2022\<close>).
\<close>

definition weekdayName :: "int \<Rightarrow> string" where
  "weekdayName w = [''Sun'', ''Mon'', ''Tue'', ''Wed'', ''Thu'', ''Fri'', ''Sat''] ! nat w"

definition monthName :: "int \<Rightarrow> string" where
  "monthName m =
     [''Jan'', ''Feb'', ''Mar'', ''Apr'', ''May'', ''Jun'', ''Jul'', ''Aug'', ''Sep'', ''Oct'',
      ''Nov'', ''Dec''] ! nat m"

definition dateStringYear :: "int \<Rightarrow> string" where
  "dateStringYear y =
     (if 0 \<le> y then [] else ''-'') @ ToZeroPaddedDecimalString (nat \<bar>y\<bar>) 4"

definition DateString :: "int \<Rightarrow> string" where
  "DateString tv =
     weekdayName (WeekDay tv) @ '' '' @ monthName (MonthFromTime tv) @ '' ''
       @ ToZeroPaddedDecimalString (nat (DateFromTime tv)) 2 @ '' ''
       @ dateStringYear (YearFromTime tv)"

definition toDateString :: "int \<Rightarrow> instant \<Rightarrow> string" where
  "toDateString tz d = DateString (LocalTime tz d)"

definition slotLabel :: "nat \<Rightarrow> string" where
  \<comment> \<open>\<^verbatim>\<open>`${hour < 10 ? '0' : ''}${hour}:00`\<close>\<close>
  "slotLabel hour = (if hour < 10 then ''0'' else []) @ showNat hour @ '':00''"

section \<open>Appointment records\<close>

text \<open>
  A document of the appointments collection, as the snapshot listener hands it to the
  components: the fields \<^verbatim>\<open>handlePaymentAndBooking\<close> writes, and the document id.
  The field \<^verbatim>\<open>id\<close> is named \<open>docId\<close> here. The \<open>date\<close> is the YYYY-MM-DD text,
  the \<open>time\<close> is the text of the slot. The price is in reais;
  \<open>createdAt\<close> is the server's timestamp, \<open>None\<close> while the server has not
  filled it in.
\<close>

datatype service_kind = CorteClassico

record appointment =
  docId :: string
  userId :: string
  userName :: string
  whatsapp :: string
  date :: string
  time :: string
  service :: service_kind
  price :: int
  paid :: bool
  createdAt :: "int option"

section \<open>ScheduleGrid: the available slots\<close>

text \<open>
  The loop of \<^verbatim>\<open>getAvailableSlots\<close> that fills \<^verbatim>\<open>timeSlots\<close>:
  \<^verbatim>\<open>for (let hour = 9; hour <= 17; hour++) { if (hour < 18) timeSlots.push(...) }\<close>
\<close>

function timeSlotsLoop :: "nat \<Rightarrow> string list \<Rightarrow> string list" where
  "timeSlotsLoop hour timeSlots =
     (if hour \<le> 17
      then timeSlotsLoop (hour + 1)
             (if hour < 18 then timeSlots @ [slotLabel hour] else timeSlots)
      else timeSlots)"
  by pat_completeness auto
termination
  by (relation "measure (\<lambda>(hour, timeSlots). 18 - hour)") auto

declare timeSlotsLoop.simps [simp del]

definition timeSlots :: "string list" where
  "timeSlots = timeSlotsLoop 9 []"

definition isToday :: "int \<Rightarrow> instant \<Rightarrow> instant \<Rightarrow> bool" where
  \<comment> \<open>\<^verbatim>\<open>date.toDateString() === today.toDateString()\<close>, \<open>today\<close> being the clock\<close>
  "isToday tz d today = (toDateString tz d = toDateString tz today)"

definition isBooked :: "appointment list \<Rightarrow> string \<Rightarrow> string \<Rightarrow> bool" where
  \<comment> \<open>\<^verbatim>\<open>appointments.some(app => app.date === dateString && app.time === time)\<close>\<close>
  "isBooked appointments dateString t =
     list_ex (\<lambda>app. date app = dateString \<and> time app = t) appointments"

definition slotTime :: "int \<Rightarrow> instant \<Rightarrow> string \<Rightarrow> instant option" where
  \<comment> \<open>\<^verbatim>\<open>const [h, m] = time.split(':').map(Number)\<close> and
      \<^verbatim>\<open>new Date(date.getFullYear(), date.getMonth(), date.getDate(), h, m)\<close>;
      \<open>None\<close> is the invalid Date (a missing or NaN component).\<close>
  "slotTime tz d t =
     (case map Number (split (CHR '':'') t) of
        Some h # Some m # rest \<Rightarrow>
          Some (newDate tz (getFullYear tz d) (getMonth tz d) (getDate tz d) h m)
      | _ \<Rightarrow> None)"

text \<open>
  \<^verbatim>\<open>getAvailableSlots(date)\<close>; the Date parameter \<^verbatim>\<open>date\<close> is written \<open>d\<close>
  and the slot text \<^verbatim>\<open>time\<close> is written \<open>t\<close>, since \<open>date\<close> and \<open>time\<close> name
  the fields of the record. The component's \<^verbatim>\<open>appointments\<close> state and the
  clock are parameters; the reads of the clock within one call (\<^verbatim>\<open>now\<close>, and
  \<^verbatim>\<open>today\<close> in \<^verbatim>\<open>isToday\<close>) return the same instant \<open>now\<close>. A comparison with
  the time value of an invalid Date is false.
\<close>

definition getAvailableSlots ::
  "int \<Rightarrow> appointment list \<Rightarrow> instant \<Rightarrow> instant \<Rightarrow> string list" where
  "getAvailableSlots tz appointments d now =
     (let dateString = toISODate d in
      filter (\<lambda>t.
        if isBooked appointments dateString t then False
        else if isToday tz d now then
          (case slotTime tz d t of
             None \<Rightarrow> False
           | Some st \<Rightarrow> st > now + 60 * 60 * 1000)
        else True) timeSlots)"

definition startsBefore :: "int \<Rightarrow> instant \<Rightarrow> string \<Rightarrow> string \<Rightarrow> bool" where
  \<comment> \<open>the order of two slot texts by the start instants \<open>slotTime\<close> gives them on the
      day of \<open>d\<close>\<close>
  "startsBefore tz d a b =
     (case (slotTime tz d a, slotTime tz d b) of
        (Some x, Some y) \<Rightarrow> x < y
      | _ \<Rightarrow> False)"

definition withinBusinessHours :: "int \<Rightarrow> instant \<Rightarrow> string \<Rightarrow> bool" where
  \<comment> \<open>the slot starts at or after 09:00 and before 18:00, local time, on the day that
      \<open>slotTime\<close> builds from the local year, month and day of \<open>d\<close>\<close>
  "withinBusinessHours tz d t =
     (case slotTime tz d t of
        Some x \<Rightarrow>
          newDate tz (getFullYear tz d) (getMonth tz d) (getDate tz d) 9 0 \<le> x
          \<and> x < newDate tz (getFullYear tz d) (getMonth tz d) (getDate tz d) 18 0
      | None \<Rightarrow> False)"

section \<open>ScheduleGrid: state, navigation and booking\<close>

text \<open>
  The texts the component shows in \<^verbatim>\<open>error\<close>, in the order of the source:
  the empty text; "Por favor, selecione um horario."; "Pagamento cancelado ou falhou.
  O agendamento nao foi concluido."; "Falha ao registrar o agendamento no sistema.
  Tente novamente.".
\<close>

datatype message = NoMessage | SelectTimeMessage | PaymentCancelledMessage | SaveFailedMessage

text \<open>The props the booking reads: \<^verbatim>\<open>userId\<close>, \<^verbatim>\<open>userProfile.name\<close> and
  \<^verbatim>\<open>userProfile.whatsapp\<close>.\<close>

record props =
  propsUserId :: string
  profileName :: string
  profileWhatsapp :: string

text \<open>The five \<^verbatim>\<open>useState\<close> variables of the component.\<close>

record grid =
  selectedDate :: instant
  selectedTime :: "string option"
  appointments :: "appointment list"
  isBooking :: bool
  error :: message

definition initialGrid :: "instant \<Rightarrow> grid" where
  \<comment> \<open>the state at mount; \<open>now\<close> is the clock read by \<^verbatim>\<open>useState(new Date())\<close>\<close>
  "initialGrid now =
     \<lparr>selectedDate = now, selectedTime = None, appointments = [], isBooking = False,
      error = NoMessage\<rparr>"

definition onSnapshot :: "appointment list \<Rightarrow> grid \<Rightarrow> grid" where
  \<comment> \<open>the listener: \<^verbatim>\<open>setAppointments(fetchedAppointments)\<close>\<close>
  "onSnapshot fetched g = g\<lparr>appointments := fetched\<rparr>"

definition handleDateChange :: "int \<Rightarrow> instant \<Rightarrow> int \<Rightarrow> grid \<Rightarrow> grid" where
  \<comment> \<open>\<^verbatim>\<open>newDate.setDate(selectedDate.getDate() + days)\<close>, compared with
      \<^verbatim>\<open>new Date().setHours(0, 0, 0, 0)\<close>\<close>
  "handleDateChange tz now days g =
     (let nextDate = setDate tz (selectedDate g) (getDate tz (selectedDate g) + days) in
      if nextDate < setHours tz now 0 0 0 0 then g
      else g\<lparr>selectedDate := nextDate, selectedTime := None, error := NoMessage\<rparr>)"

definition handleSelectTime :: "string \<Rightarrow> grid \<Rightarrow> grid" where
  "handleSelectTime t g = g\<lparr>selectedTime := Some t, error := NoMessage\<rparr>"

definition newAppointment :: "props \<Rightarrow> grid \<Rightarrow> string \<Rightarrow> appointment" where
  \<comment> \<open>The object handed to \<^verbatim>\<open>addDoc\<close>. It has no id yet (\<open>docId\<close> is empty), and its
      \<open>createdAt\<close> is the \<^verbatim>\<open>serverTimestamp()\<close> placeholder, \<open>None\<close>.\<close>
  "newAppointment p g t =
     \<lparr>docId = [], userId = propsUserId p, userName = profileName p,
      whatsapp = profileWhatsapp p, date = toISODate (selectedDate g), time = t,
      service = CorteClassico, price = 10, paid = True, createdAt = None\<rparr>"

text \<open>
  The store is the appointments collection: the list of its documents. \<^verbatim>\<open>addDoc\<close> is
  Firestore's: it adds the document under a new id, fills the server timestamp, and
  puts no condition on the documents already stored. Whether the write is accepted
  (with which id and timestamp) or fails is the environment's choice, a parameter.
\<close>

datatype write_outcome = Written string int | Rejected

definition addDoc ::
  "appointment list \<Rightarrow> appointment \<Rightarrow> write_outcome \<Rightarrow> appointment list \<times> string option" where
  "addDoc store newDoc outcome =
     (case outcome of
        Written newId serverTime \<Rightarrow>
          (store @ [newDoc\<lparr>docId := newId, createdAt := Some serverTime\<rparr>], Some newId)
      | Rejected \<Rightarrow> (store, None))"

text \<open>
  \<^verbatim>\<open>handlePaymentAndBooking\<close> up to its \<^verbatim>\<open>await\<close>: the validation, the payment
  dialog (\<open>confirmed\<close> is the answer \<^verbatim>\<open>window.confirm\<close> gives, asked only when a time
  is selected), and the state set before the write. \<^verbatim>\<open>!selectedTime\<close> holds of null
  and of the empty text. The result is the new state and
  the document handed to \<^verbatim>\<open>addDoc\<close>, if the write is issued.
\<close>

definition beforeAwait :: "props \<Rightarrow> bool \<Rightarrow> grid \<Rightarrow> grid \<times> appointment option" where
  "beforeAwait p confirmed g =
     (case selectedTime g of
        None \<Rightarrow> (g\<lparr>error := SelectTimeMessage\<rparr>, None)
      | Some t \<Rightarrow>
          if t = [] then (g\<lparr>error := SelectTimeMessage\<rparr>, None)
          else if \<not> confirmed then (g\<lparr>error := PaymentCancelledMessage\<rparr>, None)
          else (g\<lparr>isBooking := True, error := NoMessage\<rparr>, Some (newAppointment p g t)))"

text \<open>
  The rest of \<^verbatim>\<open>handlePaymentAndBooking\<close>, run when the write settles: on success
  \<^verbatim>\<open>onBookingConfirmed({ ...newAppointment, id: docRef.id })\<close>, whose argument is the
  second component of the result; on failure the message; in both cases
  \<^verbatim>\<open>setIsBooking(false)\<close>.
\<close>

definition afterAwait :: "grid \<Rightarrow> appointment \<Rightarrow> string option \<Rightarrow> grid \<times> appointment option" where
  "afterAwait g newDoc docRef =
     (case docRef of
        Some newId \<Rightarrow> (g\<lparr>isBooking := False\<rparr>, Some (newDoc\<lparr>docId := newId\<rparr>))
      | None \<Rightarrow> (g\<lparr>error := SaveFailedMessage, isBooking := False\<rparr>, None))"

text \<open>
  One run of \<^verbatim>\<open>handlePaymentAndBooking\<close> with nothing else happening before the write
  settles: the component's state, the store, and the booking handed to
  \<^verbatim>\<open>onBookingConfirmed\<close> (if any).
\<close>

definition handlePaymentAndBooking ::
  "props \<Rightarrow> bool \<Rightarrow> write_outcome \<Rightarrow> grid \<Rightarrow> appointment list
     \<Rightarrow> grid \<times> appointment list \<times> appointment option" where
  "handlePaymentAndBooking p confirmed outcome g store =
     (case beforeAwait p confirmed g of
        (g1, None) \<Rightarrow> (g1, store, None)
      | (g1, Some newDoc) \<Rightarrow>
          (case addDoc store newDoc outcome of
             (store', docRef) \<Rightarrow>
               (case afterAwait g1 newDoc docRef of
                  (g2, booked) \<Rightarrow> (g2, store', booked))))"


section \<open>ScheduleGrid as a machine of events\<close>

text \<open>
  The component between events. \<open>pending\<close> holds the documents handed to
  \<^verbatim>\<open>addDoc\<close> whose write has not settled, \<open>issued\<close> counts the calls of
  \<^verbatim>\<open>addDoc\<close>, \<open>confirmedBookings\<close> collects the arguments of
  \<^verbatim>\<open>onBookingConfirmed\<close>. An event handler runs to its end (or to its
  \<^verbatim>\<open>await\<close>) before the next event.

  The confirm button is rendered only under \<^verbatim>\<open>selectedTime && (...)\<close> and carries
  \<^verbatim>\<open>disabled={isBooking}\<close>: a click reaches \<^verbatim>\<open>handlePaymentAndBooking\<close> only when a
  time is selected and \<^verbatim>\<open>isBooking\<close> is false. The slot buttons are those of an
  earlier \<^verbatim>\<open>getAvailableSlots\<close>; \<open>SelectTime\<close> accepts any text, which covers them.
  The component stays mounted here; in the App a confirmed booking shows the dashboard,
  and a later visit mounts a new grid.
\<close>

datatype event =
  Snapshot "appointment list"
| DateChange int
| SelectTime string
| ConfirmClick bool
| WriteSettled write_outcome

record page =
  pageGrid :: grid
  pageStore :: "appointment list"
  pending :: "appointment list"
  issued :: nat
  confirmedBookings :: "appointment list"

definition initialPage :: "instant \<Rightarrow> appointment list \<Rightarrow> page" where
  "initialPage now store =
     \<lparr>pageGrid = initialGrid now, pageStore = store, pending = [], issued = 0,
      confirmedBookings = []\<rparr>"

definition confirmEnabled :: "grid \<Rightarrow> bool" where
  "confirmEnabled g =
     ((case selectedTime g of None \<Rightarrow> False | Some t \<Rightarrow> t \<noteq> []) \<and> \<not> isBooking g)"

definition step :: "int \<Rightarrow> props \<Rightarrow> instant \<Rightarrow> event \<Rightarrow> page \<Rightarrow> page" where
  "step tz p now ev s =
     (case ev of
        Snapshot fetched \<Rightarrow> s\<lparr>pageGrid := onSnapshot fetched (pageGrid s)\<rparr>
      | DateChange days \<Rightarrow> s\<lparr>pageGrid := handleDateChange tz now days (pageGrid s)\<rparr>
      | SelectTime t \<Rightarrow> s\<lparr>pageGrid := handleSelectTime t (pageGrid s)\<rparr>
      | ConfirmClick confirmed \<Rightarrow>
          if confirmEnabled (pageGrid s) then
            (case beforeAwait p confirmed (pageGrid s) of
               (g1, None) \<Rightarrow> s\<lparr>pageGrid := g1\<rparr>
             | (g1, Some newDoc) \<Rightarrow>
                 s\<lparr>pageGrid := g1, pending := pending s @ [newDoc], issued := issued s + 1\<rparr>)
          else s
      | WriteSettled outcome \<Rightarrow>
          (case pending s of
             [] \<Rightarrow> s
           | newDoc # rest \<Rightarrow>
               (case addDoc (pageStore s) newDoc outcome of
                  (store', docRef) \<Rightarrow>
                    (case afterAwait (pageGrid s) newDoc docRef of
                       (g2, booked) \<Rightarrow>
                         s\<lparr>pageGrid := g2, pageStore := store', pending := rest,
                           confirmedBookings :=
                             confirmedBookings s @
                               (case booked of None \<Rightarrow> [] | Some b \<Rightarrow> [b])\<rparr>))))"

fun run :: "int \<Rightarrow> props \<Rightarrow> (instant \<times> event) list \<Rightarrow> page \<Rightarrow> page" where
  "run tz p [] s = s"
| "run tz p ((now, ev) # evs) s = run tz p evs (step tz p now ev s)"

section \<open>DashboardScreen: the upcoming appointments\<close>

text \<open>
  \<^verbatim>\<open>Array.prototype.sort(compare)\<close> is stable; when \<^verbatim>\<open>compare\<close> orders the
  elements consistently its result is the one that inserting each element before the
  first element it does not follow gives. A NaN from \<^verbatim>\<open>compare\<close> counts as 0.
\<close>

fun insertSorted :: "('a \<Rightarrow> 'a \<Rightarrow> int) \<Rightarrow> 'a \<Rightarrow> 'a list \<Rightarrow> 'a list" where
  "insertSorted compare x [] = [x]"
| "insertSorted compare x (y # ys) =
     (if compare x y \<le> 0 then x # y # ys else y # insertSorted compare x ys)"

definition sortWith :: "('a \<Rightarrow> 'a \<Rightarrow> int) \<Rightarrow> 'a list \<Rightarrow> 'a list" where
  "sortWith compare xs = foldr (insertSorted compare) xs []"

definition compareDateTime ::
  "appointment \<times> instant option \<Rightarrow> appointment \<times> instant option \<Rightarrow> int" where
  \<comment> \<open>\<^verbatim>\<open>(a, b) => a.dateTime.getTime() - b.dateTime.getTime()\<close>\<close>
  "compareDateTime a b =
     (case (snd a, snd b) of
        (Some x, Some y) \<Rightarrow> x - y
      | _ \<Rightarrow> 0)"

text \<open>
  \<^verbatim>\<open>upcomingAppointments\<close>; the object \<^verbatim>\<open>{ ...app, dateTime }\<close> is the pair of the
  record and its \<open>dateTime\<close>, which is
  \<^verbatim>\<open>new Date(app.date + 'T' + app.time + ':00')\<close>. How a text is read as a Date is
  the engine's matter (which texts it accepts beyond the ECMAScript date-time format,
  and what it makes of a day that the month does not have, differs between engines):
  the reading is the parameter \<open>newDateOf\<close>, which gives the time value of
  \<^verbatim>\<open>new Date(text)\<close>, \<open>None\<close> for an invalid Date. A comparison with the time value
  of an invalid Date is false. The clock \<open>now\<close> and the props are parameters.
\<close>

definition upcomingAppointments ::
  "(string \<Rightarrow> instant option) \<Rightarrow> string \<Rightarrow> appointment list \<Rightarrow> instant
     \<Rightarrow> (appointment \<times> instant option) list" where
  "upcomingAppointments newDateOf uid apps now =
     sortWith compareDateTime
       (filter (\<lambda>(app, dateTime). case dateTime of None \<Rightarrow> False | Some t \<Rightarrow> t \<ge> now)
          (map (\<lambda>app. (app, newDateOf (date app @ ''T'' @ time app @ '':00'')))
             (filter (\<lambda>app. userId app = uid) apps)))"

section \<open>Notions used in the statements\<close>

definition inFlightInv :: "page \<Rightarrow> bool" where
  \<comment> \<open>at most one write is pending, and \<open>isBooking\<close> says whether one is\<close>
  "inFlightInv s =
     (length (pending s) \<le> 1 \<and> (isBooking (pageGrid s) \<longleftrightarrow> pending s \<noteq> []))"

definition attachDateTime ::
  "(string \<Rightarrow> instant option) \<Rightarrow> appointment \<Rightarrow> appointment \<times> instant option" where
  \<comment> \<open>the record with its \<open>dateTime\<close>, as the \<^verbatim>\<open>map\<close> of \<open>upcomingAppointments\<close> builds it\<close>
  "attachDateTime newDateOf app = (app, newDateOf (date app @ ''T'' @ time app @ '':00''))"

definition isUpcoming ::
  "(string \<Rightarrow> instant option) \<Rightarrow> string \<Rightarrow> instant \<Rightarrow> appointment \<Rightarrow> bool" where
  \<comment> \<open>the record is the client's, the Date read from its texts is valid, and it is at
      \<open>now\<close> or later\<close>
  "isUpcoming newDateOf uid now app =
     (userId app = uid \<and>
      (case newDateOf (date app @ ''T'' @ time app @ '':00'') of
         None \<Rightarrow> False
       | Some t \<Rightarrow> now \<le> t))"

definition datesRead :: "string \<Rightarrow> instant option" where
  \<comment> \<open>The Dates that \<^verbatim>\<open>new Date(text)\<close> gives, three hours behind UTC, to the four
      date-time texts of the examples: a date-time text without a zone is local time.
      No other text is read in the examples.\<close>
  "datesRead =
     map_of
       [(''2022-01-08T14:00:00'', newDate 180 2022 0 8 14 0),
        (''2022-01-08T15:00:00'', newDate 180 2022 0 8 15 0),
        (''2022-01-09T09:00:00'', newDate 180 2022 0 9 9 0),
        (''2022-01-07T16:00:00'', newDate 180 2022 0 7 16 0)]"

definition timeValue :: "appointment \<times> instant option \<Rightarrow> int" where
  \<comment> \<open>\<^verbatim>\<open>dateTime.getTime()\<close> of a valid \<open>dateTime\<close>\<close>
  "timeValue a = (case snd a of Some t \<Rightarrow> t | None \<Rightarrow> 0)"

definition startsNoLater ::
  "appointment \<times> instant option \<Rightarrow> appointment \<times> instant option \<Rightarrow> bool" where
  \<comment> \<open>both start instants are valid and the first is not after the second\<close>
  "startsNoLater a b =
     (case (snd a, snd b) of
        (Some x, Some y) \<Rightarrow> x \<le> y
      | _ \<Rightarrow> False)"

definition startOfSlot :: "int \<Rightarrow> instant \<Rightarrow> nat \<Rightarrow> instant" where
  \<comment> \<open>the hour \<open>h\<close>, local time, of the local day of \<open>d\<close>\<close>
  "startOfSlot tz d h = UTC tz (MakeDate (Day (LocalTime tz d)) (MakeTime (int h) 0 0 0))"

section \<open>Facts about the calendar\<close>

lemma DayFromYear_mono: "y \<le> z \<Longrightarrow> DayFromYear y \<le> DayFromYear z"
proof (induction z rule: int_ge_induct)
  case base
  show ?case by simp
next
  case (step i)
  with DayFromYear_succ_ge [of i] show ?case by simp
qed

lemma yearDown_le: "DayFromYear (yearDown day y) \<le> day"
  by (induction day y rule: yearDown.induct) (subst yearDown.simps, simp)

lemma yearUp_bounds:
  "DayFromYear y \<le> day \<Longrightarrow>
     DayFromYear (yearUp day y) \<le> day \<and> day < DayFromYear (yearUp day y + 1)"
  by (induction day y rule: yearUp.induct) (subst (1 2) yearUp.simps, simp)

lemma YearFromDay_bounds:
  "DayFromYear (YearFromDay day) \<le> day" "day < DayFromYear (YearFromDay day + 1)"
  using yearUp_bounds [OF yearDown_le, of day "1970 + day div 365"]
  by (simp_all add: YearFromDay_def)

lemma YearFromDay_unique:
  assumes "DayFromYear y \<le> day" "day < DayFromYear (y + 1)"
  shows "YearFromDay day = y"
proof (rule ccontr)
  let ?Y = "YearFromDay day"
  assume "?Y \<noteq> y"
  then consider "?Y < y" | "y < ?Y" by linarith
  then show False
  proof cases
    case 1
    then have "DayFromYear (?Y + 1) \<le> DayFromYear y" by (intro DayFromYear_mono) simp
    with assms(1) YearFromDay_bounds(2) [of day] show False by simp
  next
    case 2
    then have "DayFromYear (y + 1) \<le> DayFromYear ?Y" by (intro DayFromYear_mono) simp
    with assms(2) YearFromDay_bounds(1) [of day] show False by simp
  qed
qed

lemma DayWithinYear_bounds:
  "0 \<le> DayWithinYear t" "DayWithinYear t < 365 + leapDay (YearFromTime t)"
  using YearFromDay_bounds [of "Day t"] DayFromYear_Suc [of "YearFromTime t"]
  by (auto simp: DayWithinYear_def YearFromTime_def DaysInYear_def leapDay_def split: if_splits)

lemma monthStart_values:
  "monthStart y 0 = 0" "monthStart y 1 = 31" "monthStart y 2 = 59 + leapDay y"
  "monthStart y 3 = 90 + leapDay y" "monthStart y 4 = 120 + leapDay y"
  "monthStart y 5 = 151 + leapDay y" "monthStart y 6 = 181 + leapDay y"
  "monthStart y 7 = 212 + leapDay y" "monthStart y 8 = 243 + leapDay y"
  "monthStart y 9 = 273 + leapDay y" "monthStart y 10 = 304 + leapDay y"
  "monthStart y 11 = 334 + leapDay y"
  by (simp_all add: monthStart_def)

lemma MonthFromTime_range: "0 \<le> MonthFromTime t" "MonthFromTime t \<le> 11"
  by (simp_all add: MonthFromTime_def Let_def)

lemma leapDay_range: "0 \<le> leapDay y" "leapDay y \<le> 1"
  by (simp_all add: leapDay_def)

lemma DateFromTime_range: "1 \<le> DateFromTime t" "DateFromTime t \<le> 31"
  using DayWithinYear_bounds [of t] leapDay_range [of "YearFromTime t"]
  by (auto simp: DateFromTime_def MonthFromTime_def Let_def monthStart_values)

lemma MakeDay_civil:
  "MakeDay (YearFromTime t) (MonthFromTime t) (DateFromTime t) = Day t"
  using MonthFromTime_range [of t]
  by (simp add: MakeDay_def DateFromTime_def DayWithinYear_def)

lemma MakeDay_add:
  "MakeDay (YearFromTime t) (MonthFromTime t) (DateFromTime t + n) = Day t + n"
  using MonthFromTime_range [of t]
  by (simp add: MakeDay_def DateFromTime_def DayWithinYear_def)

lemma civil_injective:
  "YearFromTime s = YearFromTime t \<Longrightarrow> MonthFromTime s = MonthFromTime t \<Longrightarrow>
   DateFromTime s = DateFromTime t \<Longrightarrow> Day s = Day t"
  using MakeDay_civil [of s] MakeDay_civil [of t] by simp

lemma setDate_add: "setDate tz d (getDate tz d + n) = d + n * msPerDay"
proof -
  let ?t = "LocalTime tz d"
  have "MakeDay (YearFromTime ?t) (MonthFromTime ?t) (DateFromTime ?t + n) = Day ?t + n"
    by (rule MakeDay_add)
  moreover have "(Day ?t + n) * msPerDay + TimeWithinDay ?t = ?t + n * msPerDay"
    by (simp add: Day_def TimeWithinDay_def algebra_simps)
  ultimately show ?thesis
    by (simp add: setDate_def getDate_def Let_def MakeDate_def UTC_def LocalTime_def)
qed

lemma newDate_same_day:
  "\<not> (0 \<le> getFullYear tz d \<and> getFullYear tz d \<le> 99) \<Longrightarrow>
     newDate tz (getFullYear tz d) (getMonth tz d) (getDate tz d) h m =
       UTC tz (MakeDate (Day (LocalTime tz d)) (MakeTime (int h) (int m) 0 0))"
  by (auto simp: newDate_def getFullYear_def getMonth_def getDate_def MakeDay_civil)

section \<open>Facts about the texts\<close>

lemma digitVal_digitChar: "digitVal (digitChar n) = Some (n mod 10)"
proof -
  have "n mod 10 < 10" by simp
  then consider "n mod 10 = 0" | "n mod 10 = 1" | "n mod 10 = 2" | "n mod 10 = 3"
    | "n mod 10 = 4" | "n mod 10 = 5" | "n mod 10 = 6" | "n mod 10 = 7" | "n mod 10 = 8"
    | "n mod 10 = 9"
    by atomize_elim arith
  then show ?thesis
    by cases (simp_all add: digitChar_def digitVal_def)
qed

lemma digitsVal_append:
  "digitsVal acc (xs @ ys) =
     (case digitsVal acc xs of None \<Rightarrow> None | Some a \<Rightarrow> digitsVal a ys)"
  by (induction xs arbitrary: acc) (auto split: option.splits)

lemma digitsVal_showNat: "digitsVal 0 (showNat n) = Some n"
proof (induction n rule: showNat.induct)
  case (1 n)
  show ?case
  proof (cases "n < 10")
    case True
    then show ?thesis
      by (subst showNat.simps) (simp add: digitVal_digitChar)
  next
    case False
    with 1 have "digitsVal 0 (showNat (n div 10)) = Some (n div 10)" by simp
    with False show ?thesis
      by (subst showNat.simps) (simp add: digitsVal_append digitVal_digitChar)
  qed
qed

lemma digitsVal_zeros: "digitsVal 0 (replicate k (CHR ''0'')) = Some 0"
  by (induction k) (simp_all add: digitVal_def)

lemma digitsVal_padded: "digitsVal 0 (ToZeroPaddedDecimalString n k) = Some n"
  by (simp add: ToZeroPaddedDecimalString_def Let_def digitsVal_append digitsVal_zeros
      digitsVal_showNat)

lemma padded_inj:
  "ToZeroPaddedDecimalString n k = ToZeroPaddedDecimalString m j \<Longrightarrow> n = m"
  using digitsVal_padded [of n k] digitsVal_padded [of m j] by simp

lemma showNat_digits: "c \<in> set (showNat n) \<Longrightarrow> isDigit c"
proof (induction n rule: showNat.induct)
  case (1 n)
  have d: "isDigit (digitChar n)"
    by (simp add: isDigit_def digitVal_digitChar)
  show ?case
  proof (cases "n < 10")
    case True
    with 1(2) d show ?thesis by (subst (asm) showNat.simps) simp
  next
    case False
    with 1 d show ?thesis by (subst (asm) showNat.simps) auto
  qed
qed

lemma padded_digits: "c \<in> set (ToZeroPaddedDecimalString n k) \<Longrightarrow> isDigit c"
proof -
  have z: "isDigit (CHR ''0'')" by (simp add: isDigit_def digitVal_def)
  assume "c \<in> set (ToZeroPaddedDecimalString n k)"
  then have "c = CHR ''0'' \<or> c \<in> set (showNat n)"
    by (auto simp: ToZeroPaddedDecimalString_def Let_def)
  with z show ?thesis by (auto dest: showNat_digits)
qed

lemma not_digits:
  "\<not> isDigit (CHR ''T'')" "\<not> isDigit (CHR ''+'')" "\<not> isDigit (CHR ''-'')"
  "\<not> isDigit (CHR '' '')"
  by (simp_all add: isDigit_def digitVal_def)

lemma showNat_length_lt_100: "n < 100 \<Longrightarrow> length (showNat n) \<le> 2"
proof -
  assume n: "n < 100"
  then have "n div 10 < 10" by simp
  then have "showNat (n div 10) = [digitChar (n div 10)]"
    by (subst showNat.simps) simp
  then show ?thesis
    by (subst showNat.simps) simp
qed

lemma showNat_nonempty: "showNat n \<noteq> []"
  by (subst showNat.simps) simp

lemma padded2_length: "n < 100 \<Longrightarrow> length (ToZeroPaddedDecimalString n 2) = 2"
  using showNat_length_lt_100 [of n]
  by (simp add: ToZeroPaddedDecimalString_def Let_def)

lemma split_no_sep: "sep \<notin> set xs \<Longrightarrow> split sep (xs @ sep # ys) = xs # split sep ys"
  by (induction xs) auto

lemma padded_nonempty: "ToZeroPaddedDecimalString n k \<noteq> []"
  by (simp add: ToZeroPaddedDecimalString_def Let_def showNat_nonempty)

lemma padded_hd_digit: "isDigit (hd (ToZeroPaddedDecimalString n k))"
  using padded_digits [of "hd (ToZeroPaddedDecimalString n k)" n k] padded_nonempty [of n k]
  by simp

lemma isoYearText_inj: "isoYearText y = isoYearText z \<Longrightarrow> y = z"
proof -
  assume e: "isoYearText y = isoYearText z"
  let ?plain = "\<lambda>y::int. 0 \<le> y \<and> y \<le> 9999"
  have hd_plain: "isDigit (hd (isoYearText y))" if "?plain y" for y
    using that padded_hd_digit [of "nat y" 4] by (simp add: isoYearText_def)
  have hd_signed: "\<not> isDigit (hd (isoYearText y))" if "\<not> ?plain y" for y
  proof -
    from that have "isoYearText y =
        (if 0 < y then ''+'' else ''-'') @ ToZeroPaddedDecimalString (nat \<bar>y\<bar>) 6"
      unfolding isoYearText_def by (rule if_not_P)
    then show ?thesis by (simp add: not_digits)
  qed
  show ?thesis
  proof (cases "?plain y")
    case True
    with e hd_plain [of y] hd_signed [of z] have z: "?plain z" by auto
    with True e have "ToZeroPaddedDecimalString (nat y) 4 = ToZeroPaddedDecimalString (nat z) 4"
      by (simp add: isoYearText_def)
    then have "nat y = nat z" by (rule padded_inj)
    with True z show ?thesis by arith
  next
    case False
    with e hd_plain [of z] hd_signed [of y] have z: "\<not> ?plain z" by auto
    from False z e have s: "(0 < y) = (0 < z)"
      by (auto simp: isoYearText_def split: if_splits)
    with False z e have "ToZeroPaddedDecimalString (nat \<bar>y\<bar>) 6 = ToZeroPaddedDecimalString (nat \<bar>z\<bar>) 6"
      by (auto simp: isoYearText_def split: if_splits)
    then have "nat \<bar>y\<bar> = nat \<bar>z\<bar>" by (rule padded_inj)
    with s show ?thesis by arith
  qed
qed

lemma month_date_text_length:
  "length (ToZeroPaddedDecimalString (nat (MonthFromTime t + 1)) 2) = 2"
  "length (ToZeroPaddedDecimalString (nat (DateFromTime t)) 2) = 2"
  using MonthFromTime_range [of t] DateFromTime_range [of t]
  by (simp_all add: padded2_length)

lemma append_eq_same_length:
  "xs @ us = ys @ vs \<Longrightarrow> length us = length vs \<Longrightarrow> xs = ys \<and> us = vs"
  by simp

lemma isoDateText_inj: "isoDateText s = isoDateText t \<Longrightarrow> Day s = Day t"
proof -
  assume e: "isoDateText s = isoDateText t"
  let ?Y = "\<lambda>t. isoYearText (YearFromTime t)"
  let ?M = "\<lambda>t. ToZeroPaddedDecimalString (nat (MonthFromTime t + 1)) 2"
  let ?D = "\<lambda>t. ToZeroPaddedDecimalString (nat (DateFromTime t)) 2"
  from e have "(?Y s @ ''-'' @ ?M s @ ''-'') @ ?D s = (?Y t @ ''-'' @ ?M t @ ''-'') @ ?D t"
    by (simp add: isoDateText_def)
  moreover have "length (?D s) = length (?D t)"
    by (simp add: month_date_text_length)
  ultimately have 1: "?Y s @ ''-'' @ ?M s @ ''-'' = ?Y t @ ''-'' @ ?M t @ ''-'' \<and> ?D s = ?D t"
    by (rule append_eq_same_length)
  then have "(?Y s @ ''-'') @ (?M s @ ''-'') = (?Y t @ ''-'') @ (?M t @ ''-'')"
    by simp
  moreover have "length (?M s @ ''-'') = length (?M t @ ''-'')"
    by (simp add: month_date_text_length)
  ultimately have 2: "?Y s @ ''-'' = ?Y t @ ''-'' \<and> ?M s @ ''-'' = ?M t @ ''-''"
    by (rule append_eq_same_length)
  from 2 have y: "?Y s = ?Y t" and m: "?M s = ?M t" by simp_all
  from 1 have d: "?D s = ?D t" by simp
  from y have "YearFromTime s = YearFromTime t" by (rule isoYearText_inj)
  moreover from m have "nat (MonthFromTime s + 1) = nat (MonthFromTime t + 1)"
    by (rule padded_inj)
  then have "MonthFromTime s = MonthFromTime t"
    using MonthFromTime_range [of s] MonthFromTime_range [of t] by arith
  moreover from d have "nat (DateFromTime s) = nat (DateFromTime t)"
    by (rule padded_inj)
  then have "DateFromTime s = DateFromTime t"
    using DateFromTime_range [of s] DateFromTime_range [of t] by arith
  ultimately show ?thesis by (rule civil_injective)
qed

lemma isoYearText_no_T: "CHR ''T'' \<notin> set (isoYearText y)"
proof
  assume "CHR ''T'' \<in> set (isoYearText y)"
  then consider n k where "CHR ''T'' \<in> set (ToZeroPaddedDecimalString n k)"
    | "CHR ''T'' = CHR ''+''" | "CHR ''T'' = CHR ''-''"
    by (auto simp: isoYearText_def split: if_splits)
  then show False
    by cases (auto dest: padded_digits simp: not_digits)
qed

lemma isoDateText_no_T: "CHR ''T'' \<notin> set (isoDateText t)"
proof
  assume "CHR ''T'' \<in> set (isoDateText t)"
  then consider "CHR ''T'' \<in> set (isoYearText (YearFromTime t))"
    | n k where "CHR ''T'' \<in> set (ToZeroPaddedDecimalString n k)"
    | "CHR ''T'' = CHR ''-''"
    by (auto simp: isoDateText_def)
  then show False
    by cases (auto dest: padded_digits simp: not_digits isoYearText_no_T)
qed

lemma toISODate_text: "toISODate d = isoDateText d"
  by (simp add: toISODate_def toISOString_def first_def split_no_sep [OF isoDateText_no_T])

lemma toISODate_same_day: "toISODate d = toISODate e \<longleftrightarrow> Day d = Day e"
proof
  assume "toISODate d = toISODate e"
  then have "isoDateText d = isoDateText e" by (simp only: toISODate_text)
  then show "Day d = Day e" by (rule isoDateText_inj)
next
  assume "Day d = Day e"
  then show "toISODate d = toISODate e"
    by (simp add: toISODate_text isoDateText_def YearFromTime_def MonthFromTime_def
        DateFromTime_def DayWithinYear_def)
qed

lemma WeekDay_range: "0 \<le> WeekDay t" "WeekDay t < 7"
  by (simp_all add: WeekDay_def)

lemma weekdayName_length: "0 \<le> w \<Longrightarrow> w < 7 \<Longrightarrow> length (weekdayName w) = 3"
proof -
  assume "0 \<le> w" "w < 7"
  then have "nat w < length [''Sun'', ''Mon'', ''Tue'', ''Wed'', ''Thu'', ''Fri'', ''Sat'']"
    by simp
  then have "weekdayName w \<in> set [''Sun'', ''Mon'', ''Tue'', ''Wed'', ''Thu'', ''Fri'', ''Sat'']"
    unfolding weekdayName_def by (rule nth_mem)
  then show ?thesis by auto
qed

lemma monthName_length: "0 \<le> m \<Longrightarrow> m \<le> 11 \<Longrightarrow> length (monthName m) = 3"
proof -
  let ?names = "[''Jan'', ''Feb'', ''Mar'', ''Apr'', ''May'', ''Jun'', ''Jul'', ''Aug'', ''Sep'',
    ''Oct'', ''Nov'', ''Dec'']"
  assume "0 \<le> m" "m \<le> 11"
  then have "nat m < length ?names" by simp
  then have "monthName m \<in> set ?names"
    unfolding monthName_def by (rule nth_mem)
  then show ?thesis by auto
qed

lemma monthName_inj:
  "monthName m = monthName n \<Longrightarrow> 0 \<le> m \<Longrightarrow> m \<le> 11 \<Longrightarrow> 0 \<le> n \<Longrightarrow> n \<le> 11 \<Longrightarrow> m = n"
proof -
  let ?names = "[''Jan'', ''Feb'', ''Mar'', ''Apr'', ''May'', ''Jun'', ''Jul'', ''Aug'', ''Sep'',
    ''Oct'', ''Nov'', ''Dec'']"
  assume e: "monthName m = monthName n" and r: "0 \<le> m" "m \<le> 11" "0 \<le> n" "n \<le> 11"
  have d: "distinct ?names" by simp
  from r have "nat m < length ?names" "nat n < length ?names" by simp_all
  with d e have "nat m = nat n"
    unfolding monthName_def by (simp only: nth_eq_iff_index_eq)
  with r show ?thesis by arith
qed

lemma append_eq_same_prefix_length:
  "xs @ us = ys @ vs \<Longrightarrow> length xs = length ys \<Longrightarrow> xs = ys \<and> us = vs"
  by simp

lemma dateStringYear_inj: "dateStringYear y = dateStringYear z \<Longrightarrow> y = z"
proof -
  assume e: "dateStringYear y = dateStringYear z"
  have pos: "isDigit (hd (dateStringYear y))" if "0 \<le> y" for y
    using that padded_hd_digit [of "nat \<bar>y\<bar>" 4] by (simp add: dateStringYear_def)
  have neg: "\<not> isDigit (hd (dateStringYear y))" if "\<not> 0 \<le> y" for y
    using that by (simp add: dateStringYear_def not_digits)
  from e pos [of y] pos [of z] neg [of y] neg [of z] have s: "(0 \<le> y) = (0 \<le> z)"
    by auto
  with e have "ToZeroPaddedDecimalString (nat \<bar>y\<bar>) 4 = ToZeroPaddedDecimalString (nat \<bar>z\<bar>) 4"
    by (auto simp: dateStringYear_def split: if_splits)
  then have "nat \<bar>y\<bar> = nat \<bar>z\<bar>" by (rule padded_inj)
  with s show ?thesis by arith
qed

lemma DateString_inj: "DateString s = DateString t \<Longrightarrow> Day s = Day t"
proof -
  assume e: "DateString s = DateString t"
  let ?W = "\<lambda>t. weekdayName (WeekDay t)"
  let ?M = "\<lambda>t. monthName (MonthFromTime t)"
  let ?D = "\<lambda>t. ToZeroPaddedDecimalString (nat (DateFromTime t)) 2"
  let ?Y = "\<lambda>t. dateStringYear (YearFromTime t)"
  have lw: "length (?W u) = 3" for u
    by (simp add: weekdayName_length WeekDay_range)
  have lm: "length (?M u) = 3" for u
    by (simp add: monthName_length MonthFromTime_range)
  have ld: "length (?D u) = 2" for u
    by (simp add: month_date_text_length)
  from e have "?W s @ ('' '' @ ?M s @ '' '' @ ?D s @ '' '' @ ?Y s)
      = ?W t @ ('' '' @ ?M t @ '' '' @ ?D t @ '' '' @ ?Y t)"
    by (simp add: DateString_def)
  moreover have "length (?W s) = length (?W t)" by (simp add: lw)
  ultimately have "?W s = ?W t
      \<and> '' '' @ ?M s @ '' '' @ ?D s @ '' '' @ ?Y s = '' '' @ ?M t @ '' '' @ ?D t @ '' '' @ ?Y t"
    by (rule append_eq_same_prefix_length)
  then have "?M s @ ('' '' @ ?D s @ '' '' @ ?Y s) = ?M t @ ('' '' @ ?D t @ '' '' @ ?Y t)"
    by simp
  moreover have "length (?M s) = length (?M t)" by (simp add: lm)
  ultimately have 1: "?M s = ?M t \<and> '' '' @ ?D s @ '' '' @ ?Y s = '' '' @ ?D t @ '' '' @ ?Y t"
    by (rule append_eq_same_prefix_length)
  then have "?D s @ ('' '' @ ?Y s) = ?D t @ ('' '' @ ?Y t)" by simp
  moreover have "length (?D s) = length (?D t)" by (simp add: ld)
  ultimately have 2: "?D s = ?D t \<and> '' '' @ ?Y s = '' '' @ ?Y t"
    by (rule append_eq_same_prefix_length)
  from 2 have "?Y s = ?Y t" by simp
  then have "YearFromTime s = YearFromTime t" by (rule dateStringYear_inj)
  moreover from 1 have "MonthFromTime s = MonthFromTime t"
    using MonthFromTime_range [of s] MonthFromTime_range [of t] by (auto intro: monthName_inj)
  moreover from 2 have "nat (DateFromTime s) = nat (DateFromTime t)"
    by (auto dest: padded_inj)
  then have "DateFromTime s = DateFromTime t"
    using DateFromTime_range [of s] DateFromTime_range [of t] by arith
  ultimately show ?thesis by (rule civil_injective)
qed

lemma DateString_of_day: "Day s = Day t \<Longrightarrow> DateString s = DateString t"
  by (simp add: DateString_def YearFromTime_def MonthFromTime_def DateFromTime_def
      DayWithinYear_def WeekDay_def)

lemma toDateString_same_day:
  "toDateString tz d = toDateString tz e \<longleftrightarrow> Day (LocalTime tz d) = Day (LocalTime tz e)"
  unfolding toDateString_def using DateString_inj DateString_of_day by blast

section \<open>The slot texts, evaluated\<close>

lemma slotLabel_values:
  "slotLabel 9 = ''09:00''" "slotLabel 10 = ''10:00''" "slotLabel 11 = ''11:00''"
  "slotLabel 12 = ''12:00''" "slotLabel 13 = ''13:00''" "slotLabel 14 = ''14:00''"
  "slotLabel 15 = ''15:00''" "slotLabel 16 = ''16:00''" "slotLabel 17 = ''17:00''"
  by (simp_all add: slotLabel_def showNat.simps [of 9] showNat.simps [of 10]
      showNat.simps [of 11] showNat.simps [of 12] showNat.simps [of 13]
      showNat.simps [of 14] showNat.simps [of 15] showNat.simps [of 16]
      showNat.simps [of 17] showNat.simps [of "Suc 0"] digitChar_def)

lemma timeSlots_eq:
  "timeSlots =
     [''09:00'', ''10:00'', ''11:00'', ''12:00'', ''13:00'', ''14:00'', ''15:00'',
      ''16:00'', ''17:00'']"
  by (simp add: timeSlots_def timeSlotsLoop.simps [of 9] timeSlotsLoop.simps [of 10]
      timeSlotsLoop.simps [of 11] timeSlotsLoop.simps [of 12] timeSlotsLoop.simps [of 13]
      timeSlotsLoop.simps [of 14] timeSlotsLoop.simps [of 15] timeSlotsLoop.simps [of 16]
      timeSlotsLoop.simps [of 17] timeSlotsLoop.simps [of 18] slotLabel_values)

lemma slotTime_labels:
  "slotTime tz d ''09:00'' = Some (newDate tz (getFullYear tz d) (getMonth tz d) (getDate tz d) 9 0)"
  "slotTime tz d ''10:00'' = Some (newDate tz (getFullYear tz d) (getMonth tz d) (getDate tz d) 10 0)"
  "slotTime tz d ''11:00'' = Some (newDate tz (getFullYear tz d) (getMonth tz d) (getDate tz d) 11 0)"
  "slotTime tz d ''12:00'' = Some (newDate tz (getFullYear tz d) (getMonth tz d) (getDate tz d) 12 0)"
  "slotTime tz d ''13:00'' = Some (newDate tz (getFullYear tz d) (getMonth tz d) (getDate tz d) 13 0)"
  "slotTime tz d ''14:00'' = Some (newDate tz (getFullYear tz d) (getMonth tz d) (getDate tz d) 14 0)"
  "slotTime tz d ''15:00'' = Some (newDate tz (getFullYear tz d) (getMonth tz d) (getDate tz d) 15 0)"
  "slotTime tz d ''16:00'' = Some (newDate tz (getFullYear tz d) (getMonth tz d) (getDate tz d) 16 0)"
  "slotTime tz d ''17:00'' = Some (newDate tz (getFullYear tz d) (getMonth tz d) (getDate tz d) 17 0)"
  by (simp_all add: slotTime_def Number_def digitVal_def)

lemma newDate_hours:
  "newDate tz y m dt h 0 = newDate tz y m dt 0 0 + int h * msPerHour"
  by (simp add: newDate_def Let_def UTC_def MakeDate_def MakeTime_def)

lemma timeSlots_labels: "timeSlots = map slotLabel [9..<18]"
  by code_simp

text \<open>
  The instant \<^verbatim>\<open>getAvailableSlots\<close> builds for a slot is the slot's hour, local time,
  on the local day of the Date, unless the local year of the Date is from 0 to 99: the
  constructor reads such a year as 1900 + year.
\<close>

lemma slotTime_startOfSlot:
  assumes "9 \<le> h" "h \<le> 17" "\<not> (0 \<le> getFullYear tz d \<and> getFullYear tz d \<le> 99)"
  shows "slotTime tz d (slotLabel h) = Some (startOfSlot tz d h)"
proof -
  from assms(1,2) consider "h = 9" | "h = 10" | "h = 11" | "h = 12" | "h = 13" | "h = 14"
    | "h = 15" | "h = 16" | "h = 17"
    by atomize_elim arith
  then show ?thesis
    by cases
      (simp_all add: slotLabel_values slotTime_labels newDate_same_day [OF assms(3)]
        startOfSlot_def)
qed

section \<open>Properties of the available slots\<close>

text \<open>The filter of \<^verbatim>\<open>getAvailableSlots\<close> as one condition on a slot text.\<close>

lemma getAvailableSlots_filter:
  "getAvailableSlots tz apps d now =
     filter (\<lambda>t. \<not> isBooked apps (toISODate d) t \<and>
                 (isToday tz d now \<longrightarrow>
                    (\<exists>st. slotTime tz d t = Some st \<and> now + 60 * 60 * 1000 < st)))
       timeSlots"
  unfolding getAvailableSlots_def Let_def
  by (rule filter_cong) (auto split: option.splits)

lemma isToday_same_day:
  "isToday tz d now \<longleftrightarrow> Day (LocalTime tz d) = Day (LocalTime tz now)"
  by (simp add: isToday_def toDateString_same_day)

lemma timeSlots_ascending: "sorted_wrt (startsBefore tz d) timeSlots"
  by (simp add: timeSlots_eq startsBefore_def slotTime_labels
      newDate_hours [of _ _ _ _ "numeral _"] msPerHour_def)

lemma timeSlots_business_hours: "list_all (withinBusinessHours tz d) timeSlots"
  by (simp add: timeSlots_eq withinBusinessHours_def slotTime_labels
      newDate_hours [of _ _ _ _ "numeral _"] msPerHour_def)

lemma timeSlots_distinct: "distinct timeSlots"
  by (simp add: timeSlots_eq)

text \<open>
  Two evaluations, both in a zone three hours behind UTC (\<open>tz = 180\<close>) on 2022-01-08,
  which is day 19000 after 1970-01-01. At 09:30 local time (12:30 UTC) with one booking
  at 14:00: the slots from 11:00 on, without 14:00. At 08:00 local time with no
  booking: the slots from 10:00 on; the slot at 09:00 starts exactly 60 minutes later
  and is not offered.
\<close>

lemma fields_at_0930:
  "getFullYear 180 (19000 * msPerDay + 12 * msPerHour + 30 * msPerMinute) = 2022"
  "getMonth 180 (19000 * msPerDay + 12 * msPerHour + 30 * msPerMinute) = 0"
  "getDate 180 (19000 * msPerDay + 12 * msPerHour + 30 * msPerMinute) = 8"
  "toISODate (19000 * msPerDay + 12 * msPerHour + 30 * msPerMinute) = ''2022-01-08''"
  by code_simp+

lemma fields_at_0800:
  "getFullYear 180 (19000 * msPerDay + 11 * msPerHour) = 2022"
  "getMonth 180 (19000 * msPerDay + 11 * msPerHour) = 0"
  "getDate 180 (19000 * msPerDay + 11 * msPerHour) = 8"
  "toISODate (19000 * msPerDay + 11 * msPerHour) = ''2022-01-08''"
  by code_simp+

lemma midnight_2022_01_08: "newDate 180 2022 0 8 0 0 = 19000 * msPerDay + 3 * msPerHour"
  by code_simp

lemmas ms_defs = msPerDay_def msPerHour_def msPerMinute_def

lemmas slots_eval = getAvailableSlots_def Let_def timeSlots_eq isBooked_def slotTime_labels
  newDate_hours [of _ _ _ _ "numeral _"] midnight_2022_01_08

lemma slots_at_0930:
  "getAvailableSlots 180
     [\<lparr>docId = ''b1'', userId = ''u2'', userName = ''Bia Souza'',
       whatsapp = ''11912345678'', date = ''2022-01-08'', time = ''14:00'',
       service = CorteClassico, price = 10, paid = True, createdAt = Some 1641600000000\<rparr>]
     (19000 * msPerDay + 12 * msPerHour + 30 * msPerMinute)
     (19000 * msPerDay + 12 * msPerHour + 30 * msPerMinute)
   = [''11:00'', ''12:00'', ''13:00'', ''15:00'', ''16:00'', ''17:00'']"
  by (simp add: isToday_def fields_at_0930 slots_eval) (simp add: ms_defs)

lemma slots_at_0800:
  "getAvailableSlots 180 [] (19000 * msPerDay + 11 * msPerHour)
     (19000 * msPerDay + 11 * msPerHour)
   = [''10:00'', ''11:00'', ''12:00'', ''13:00'', ''14:00'', ''15:00'', ''16:00'', ''17:00'']"
  by (simp add: isToday_def fields_at_0800 slots_eval) (simp add: ms_defs)


text \<open>
  Claim C6. For every date, every list of existing appointments and every clock, the
  available slots are taken from the nine hourly texts 09:00, 10:00, ..., 17:00, in
  that order (a subsequence of them): they are strictly ascending by start instant,
  without duplicates, at most nine, and each starts at or after 09:00 and before 18:00
  local time on the day that \<^verbatim>\<open>getAvailableSlots\<close> builds the slot instants on.
\<close>

theorem getAvailableSlots_fixed_ascending:
  "subseq (getAvailableSlots tz apps d now)
     [''09:00'', ''10:00'', ''11:00'', ''12:00'', ''13:00'', ''14:00'', ''15:00'',
      ''16:00'', ''17:00'']
   \<and> sorted_wrt (startsBefore tz d) (getAvailableSlots tz apps d now)
   \<and> distinct (getAvailableSlots tz apps d now)
   \<and> length (getAvailableSlots tz apps d now) \<le> 9
   \<and> list_all (withinBusinessHours tz d) (getAvailableSlots tz apps d now)"
proof -
  let ?P = "\<lambda>t. \<not> isBooked apps (toISODate d) t \<and>
                 (isToday tz d now \<longrightarrow>
                    (\<exists>st. slotTime tz d t = Some st \<and> now + 60 * 60 * 1000 < st))"
  have eq: "getAvailableSlots tz apps d now = filter ?P timeSlots"
    by (rule getAvailableSlots_filter)
  have "subseq (filter ?P timeSlots) timeSlots"
    by simp
  then have 1: "subseq (getAvailableSlots tz apps d now)
     [''09:00'', ''10:00'', ''11:00'', ''12:00'', ''13:00'', ''14:00'', ''15:00'',
      ''16:00'', ''17:00'']"
    unfolding eq by (simp only: timeSlots_eq)
  have 2: "sorted_wrt (startsBefore tz d) (getAvailableSlots tz apps d now)"
    unfolding eq by (rule sorted_wrt_filter) (rule timeSlots_ascending)
  have 3: "distinct (getAvailableSlots tz apps d now)"
    unfolding eq by (rule distinct_filter) (rule timeSlots_distinct)
  have "length (filter ?P timeSlots) \<le> length timeSlots"
    by (rule length_filter_le)
  then have 4: "length (getAvailableSlots tz apps d now) \<le> 9"
    unfolding eq by (simp add: timeSlots_eq)
  have 5: "list_all (withinBusinessHours tz d) (getAvailableSlots tz apps d now)"
    unfolding eq using timeSlots_business_hours [of tz d]
    by (simp add: list_all_iff)
  from 1 2 3 4 5 show ?thesis by blast
qed

text \<open>The statement at 09:30 with the booking at 14:00.\<close>

theorem getAvailableSlots_fixed_ascending_witness:
  "getAvailableSlots 180
     [\<lparr>docId = ''b1'', userId = ''u2'', userName = ''Bia Souza'',
       whatsapp = ''11912345678'', date = ''2022-01-08'', time = ''14:00'',
       service = CorteClassico, price = 10, paid = True, createdAt = Some 1641600000000\<rparr>]
     (19000 * msPerDay + 12 * msPerHour + 30 * msPerMinute)
     (19000 * msPerDay + 12 * msPerHour + 30 * msPerMinute)
   = [''11:00'', ''12:00'', ''13:00'', ''15:00'', ''16:00'', ''17:00'']
   \<and> subseq [''11:00'', ''12:00'', ''13:00'', ''15:00'', ''16:00'', ''17:00'']
     [''09:00'', ''10:00'', ''11:00'', ''12:00'', ''13:00'', ''14:00'', ''15:00'',
      ''16:00'', ''17:00'']
   \<and> sorted_wrt (startsBefore 180 (19000 * msPerDay + 12 * msPerHour + 30 * msPerMinute))
        [''11:00'', ''12:00'', ''13:00'', ''15:00'', ''16:00'', ''17:00'']
   \<and> list_all (withinBusinessHours 180 (19000 * msPerDay + 12 * msPerHour + 30 * msPerMinute))
        [''11:00'', ''12:00'', ''13:00'', ''15:00'', ''16:00'', ''17:00'']"
  using getAvailableSlots_fixed_ascending
    [of 180 "[\<lparr>docId = ''b1'', userId = ''u2'', userName = ''Bia Souza'',
       whatsapp = ''11912345678'', date = ''2022-01-08'', time = ''14:00'',
       service = CorteClassico, price = 10, paid = True, createdAt = Some 1641600000000\<rparr>]"
     "19000 * msPerDay + 12 * msPerHour + 30 * msPerMinute"
     "19000 * msPerDay + 12 * msPerHour + 30 * msPerMinute"]
  unfolding slots_at_0930 by blast

text \<open>
  What the filter of the booked slots guarantees: a record whose \<open>date\<close> is the text
  the code compares with, \<^verbatim>\<open>d.toISOString().split('T')[0]\<close>, keeps its time out of
  the available slots of \<open>d\<close>, whatever the clock. That text names the UTC day of
  \<open>d\<close> (lemma \<open>toISODate_same_day\<close>).
\<close>

lemma booked_day_text_not_available:
  "app \<in> set apps \<Longrightarrow> date app = toISODate d \<Longrightarrow>
     time app \<notin> set (getAvailableSlots tz apps d now)"
  by (auto simp: getAvailableSlots_filter isBooked_def list_ex_iff)

text \<open>
  Two pages on Friday 2022-01-07, three hours behind UTC. In the morning (10:00) a
  client steps one day forward, to Saturday 2022-01-08, and books 10:00: the record is
  dated 2022-01-08. In the evening (22:00) another client, whose page has the record,
  steps one day forward, to the same Saturday. The selected date is then 22:00 of
  Saturday, which is 01:00 UTC of Sunday: the records are matched against 2022-01-09.
\<close>

lemma fields_two_pages:
  "setHours 180 (18999 * msPerDay + 13 * msPerHour) 0 0 0 0 = 18999 * msPerDay + 3 * msPerHour"
  "setHours 180 (19000 * msPerDay + msPerHour) 0 0 0 0 = 18999 * msPerDay + 3 * msPerHour"
  "toISODate (19000 * msPerDay + 13 * msPerHour) = ''2022-01-08''"
  "toDateString 180 (19000 * msPerDay + 13 * msPerHour) = ''Sat Jan 08 2022''"
  "toDateString 180 (19000 * msPerDay + msPerHour) = ''Fri Jan 07 2022''"
  "toDateString 180 (19001 * msPerDay + msPerHour) = ''Sat Jan 08 2022''"
  "toISODate (19001 * msPerDay + msPerHour) = ''2022-01-09''"
  by code_simp+

lemma steps_of_one_day:
  "18999 * msPerDay + 13 * msPerHour + msPerDay = 19000 * msPerDay + 13 * msPerHour"
  "19000 * msPerDay + msPerHour + msPerDay = 19001 * msPerDay + msPerHour"
  "\<not> 19000 * msPerDay + 13 * msPerHour < 18999 * msPerDay + 3 * msPerHour"
  "\<not> 19001 * msPerDay + msPerHour < 18999 * msPerDay + 3 * msPerHour"
  by (simp_all add: ms_defs)

lemma morning_page:
  "run 180
       \<lparr>propsUserId = ''u1'', profileName = ''Ana Lima'', profileWhatsapp = ''11987654321''\<rparr>
       [(18999 * msPerDay + 13 * msPerHour, DateChange 1),
        (18999 * msPerDay + 13 * msPerHour, SelectTime ''10:00''),
        (18999 * msPerDay + 13 * msPerHour, ConfirmClick True),
        (18999 * msPerDay + 13 * msPerHour, WriteSettled (Written ''docA'' 1641561300000))]
       (initialPage (18999 * msPerDay + 13 * msPerHour) [])
   = \<lparr>pageGrid = \<lparr>selectedDate = 19000 * msPerDay + 13 * msPerHour,
         selectedTime = Some ''10:00'', appointments = [], isBooking = False,
         error = NoMessage\<rparr>,
       pageStore =
         [\<lparr>docId = ''docA'', userId = ''u1'', userName = ''Ana Lima'',
        whatsapp = ''11987654321'', date = ''2022-01-08'', time = ''10:00'',
        service = CorteClassico, price = 10, paid = True,
        createdAt = Some 1641561300000\<rparr>],
       pending = [], issued = 1,
       confirmedBookings =
         [\<lparr>docId = ''docA'', userId = ''u1'', userName = ''Ana Lima'',
           whatsapp = ''11987654321'', date = ''2022-01-08'', time = ''10:00'',
           service = CorteClassico, price = 10, paid = True, createdAt = None\<rparr>]\<rparr>"
  by (simp add: step_def confirmEnabled_def initialPage_def initialGrid_def
      handleDateChange_def Let_def setDate_add handleSelectTime_def beforeAwait_def
      newAppointment_def addDoc_def afterAwait_def fields_two_pages steps_of_one_day)

lemma evening_page:
  "pageGrid (run 180
       \<lparr>propsUserId = ''u2'', profileName = ''Bia Souza'', profileWhatsapp = ''11912345678''\<rparr>
       [(19000 * msPerDay + msPerHour, Snapshot
          [\<lparr>docId = ''docA'', userId = ''u1'', userName = ''Ana Lima'',
        whatsapp = ''11987654321'', date = ''2022-01-08'', time = ''10:00'',
        service = CorteClassico, price = 10, paid = True,
        createdAt = Some 1641561300000\<rparr>]),
        (19000 * msPerDay + msPerHour, DateChange 1)]
       (initialPage (19000 * msPerDay + msPerHour) []))
   = \<lparr>selectedDate = 19001 * msPerDay + msPerHour, selectedTime = None,
        appointments =
          [\<lparr>docId = ''docA'', userId = ''u1'', userName = ''Ana Lima'',
        whatsapp = ''11987654321'', date = ''2022-01-08'', time = ''10:00'',
        service = CorteClassico, price = 10, paid = True,
        createdAt = Some 1641561300000\<rparr>],
        isBooking = False, error = NoMessage\<rparr>"
  by (simp add: step_def onSnapshot_def initialPage_def initialGrid_def
      handleDateChange_def Let_def setDate_add fields_two_pages steps_of_one_day)

text \<open>
  Claim C5, at that input: the appointments hold a record for Saturday 2022-01-08 at
  10:00, the date asked about is on Saturday 2022-01-08, and 10:00 is among the
  available slots.
\<close>

theorem booked_slot_offered_in_the_evening:
  "pageStore (run 180
       \<lparr>propsUserId = ''u1'', profileName = ''Ana Lima'', profileWhatsapp = ''11987654321''\<rparr>
       [(18999 * msPerDay + 13 * msPerHour, DateChange 1),
        (18999 * msPerDay + 13 * msPerHour, SelectTime ''10:00''),
        (18999 * msPerDay + 13 * msPerHour, ConfirmClick True),
        (18999 * msPerDay + 13 * msPerHour, WriteSettled (Written ''docA'' 1641561300000))]
       (initialPage (18999 * msPerDay + 13 * msPerHour) []))
     = [\<lparr>docId = ''docA'', userId = ''u1'', userName = ''Ana Lima'',
        whatsapp = ''11987654321'', date = ''2022-01-08'', time = ''10:00'',
        service = CorteClassico, price = 10, paid = True,
        createdAt = Some 1641561300000\<rparr>]
   \<and> toDateString 180 (selectedDate (pageGrid (run 180
       \<lparr>propsUserId = ''u1'', profileName = ''Ana Lima'', profileWhatsapp = ''11987654321''\<rparr>
       [(18999 * msPerDay + 13 * msPerHour, DateChange 1),
        (18999 * msPerDay + 13 * msPerHour, SelectTime ''10:00''),
        (18999 * msPerDay + 13 * msPerHour, ConfirmClick True),
        (18999 * msPerDay + 13 * msPerHour, WriteSettled (Written ''docA'' 1641561300000))]
       (initialPage (18999 * msPerDay + 13 * msPerHour) []))))
     = ''Sat Jan 08 2022''
   \<and> pageGrid (run 180
       \<lparr>propsUserId = ''u2'', profileName = ''Bia Souza'', profileWhatsapp = ''11912345678''\<rparr>
       [(19000 * msPerDay + msPerHour, Snapshot
          [\<lparr>docId = ''docA'', userId = ''u1'', userName = ''Ana Lima'',
        whatsapp = ''11987654321'', date = ''2022-01-08'', time = ''10:00'',
        service = CorteClassico, price = 10, paid = True,
        createdAt = Some 1641561300000\<rparr>]),
        (19000 * msPerDay + msPerHour, DateChange 1)]
       (initialPage (19000 * msPerDay + msPerHour) []))
     = \<lparr>selectedDate = 19001 * msPerDay + msPerHour, selectedTime = None,
        appointments =
          [\<lparr>docId = ''docA'', userId = ''u1'', userName = ''Ana Lima'',
        whatsapp = ''11987654321'', date = ''2022-01-08'', time = ''10:00'',
        service = CorteClassico, price = 10, paid = True,
        createdAt = Some 1641561300000\<rparr>],
        isBooking = False, error = NoMessage\<rparr>
   \<and> toDateString 180 (19001 * msPerDay + msPerHour) = ''Sat Jan 08 2022''
   \<and> toISODate (19001 * msPerDay + msPerHour) = ''2022-01-09''
   \<and> getAvailableSlots 180
       [\<lparr>docId = ''docA'', userId = ''u1'', userName = ''Ana Lima'',
        whatsapp = ''11987654321'', date = ''2022-01-08'', time = ''10:00'',
        service = CorteClassico, price = 10, paid = True,
        createdAt = Some 1641561300000\<rparr>]
       (19001 * msPerDay + msPerHour) (19000 * msPerDay + msPerHour)
     = [''09:00'', ''10:00'', ''11:00'', ''12:00'', ''13:00'', ''14:00'', ''15:00'',
        ''16:00'', ''17:00'']"
proof -
  have "getAvailableSlots 180
       [\<lparr>docId = ''docA'', userId = ''u1'', userName = ''Ana Lima'',
        whatsapp = ''11987654321'', date = ''2022-01-08'', time = ''10:00'',
        service = CorteClassico, price = 10, paid = True,
        createdAt = Some 1641561300000\<rparr>]
       (19001 * msPerDay + msPerHour) (19000 * msPerDay + msPerHour)
     = [''09:00'', ''10:00'', ''11:00'', ''12:00'', ''13:00'', ''14:00'', ''15:00'',
        ''16:00'', ''17:00'']"
    by (simp add: getAvailableSlots_def Let_def timeSlots_eq isBooked_def isToday_def
        fields_two_pages)
  then show ?thesis
    unfolding morning_page evening_page by (simp add: fields_two_pages)
qed

text \<open>
  Claim C4. For every date on the current calendar day (the local day of the clock, as
  \<^verbatim>\<open>isToday\<close> decides it) and every clock \<open>now\<close>, every available slot has a
  start instant, the one \<^verbatim>\<open>getAvailableSlots\<close> builds for it, and that instant is
  strictly more than 60 minutes after \<open>now\<close>. Unless the local year of the date is from
  0 to 99, the slot is one of the hours 9 to 17 and that hour, local time, of the day of
  the date is strictly more than 60 minutes after \<open>now\<close>.
\<close>

theorem same_day_lead_time:
  "isToday tz d now \<Longrightarrow> t \<in> set (getAvailableSlots tz apps d now) \<Longrightarrow>
     (\<exists>st. slotTime tz d t = Some st \<and> now + 60 * msPerMinute < st)
     \<and> (\<not> (0 \<le> getFullYear tz d \<and> getFullYear tz d \<le> 99) \<longrightarrow>
          (\<exists>h. 9 \<le> h \<and> h \<le> 17 \<and> t = slotLabel h
               \<and> now + 60 * msPerMinute < startOfSlot tz d h))"
proof -
  assume today: "isToday tz d now" and t: "t \<in> set (getAvailableSlots tz apps d now)"
  from today t obtain st where st: "slotTime tz d t = Some st" "now + 60 * msPerMinute < st"
    by (auto simp: getAvailableSlots_filter msPerMinute_def)
  from t have "t \<in> set timeSlots"
    by (simp add: getAvailableSlots_filter)
  then have "t \<in> slotLabel ` set [9..<18]"
    unfolding timeSlots_labels by (simp only: set_map)
  then obtain h where "h \<in> set [9..<18]" and h3: "t = slotLabel h"
    by blast
  then have "9 \<le> h \<and> h < 18"
    by (simp only: set_upt atLeastLessThan_iff)
  with h3 have h: "9 \<le> h" "h \<le> 17" "t = slotLabel h"
    by simp_all
  have "now + 60 * msPerMinute < startOfSlot tz d h"
    if "\<not> (0 \<le> getFullYear tz d \<and> getFullYear tz d \<le> 99)"
    using slotTime_startOfSlot [OF h(1,2) that] st h(3) by simp
  with st h show ?thesis by blast
qed

text \<open>At 08:00 local time the first slot offered is 10:00, which starts at 13:00 UTC.\<close>

theorem same_day_lead_time_witness:
  "isToday 180 (19000 * msPerDay + 11 * msPerHour) (19000 * msPerDay + 11 * msPerHour)
   \<and> ''10:00'' \<in> set (getAvailableSlots 180 [] (19000 * msPerDay + 11 * msPerHour)
       (19000 * msPerDay + 11 * msPerHour))
   \<and> getFullYear 180 (19000 * msPerDay + 11 * msPerHour) = 2022
   \<and> slotTime 180 (19000 * msPerDay + 11 * msPerHour) ''10:00''
     = Some (19000 * msPerDay + 13 * msPerHour)
   \<and> (19000 * msPerDay + 11 * msPerHour) + 60 * msPerMinute < 19000 * msPerDay + 13 * msPerHour
   \<and> (\<exists>h. 9 \<le> h \<and> h \<le> 17 \<and> ''10:00'' = slotLabel h
          \<and> (19000 * msPerDay + 11 * msPerHour) + 60 * msPerMinute
              < startOfSlot 180 (19000 * msPerDay + 11 * msPerHour) h)"
proof -
  let ?T = "19000 * msPerDay + 11 * msPerHour"
  have t: "isToday 180 ?T ?T" by (simp add: isToday_def)
  have m: "''10:00'' \<in> set (getAvailableSlots 180 [] ?T ?T)"
    by (simp add: slots_at_0800)
  have y: "getFullYear 180 ?T = 2022" by (rule fields_at_0800)
  then have y': "\<not> (0 \<le> getFullYear 180 ?T \<and> getFullYear 180 ?T \<le> 99)" by simp
  have s: "slotTime 180 ?T ''10:00'' = Some (19000 * msPerDay + 13 * msPerHour)"
    by (simp add: slotTime_labels fields_at_0800 newDate_hours [of _ _ _ _ "numeral _"]
        midnight_2022_01_08)
  note inst = same_day_lead_time [OF t m]
  from inst have "\<exists>st. slotTime 180 ?T ''10:00'' = Some st \<and> ?T + 60 * msPerMinute < st"
    by blast
  with s have a: "?T + 60 * msPerMinute < 19000 * msPerDay + 13 * msPerHour" by simp
  from inst y' have b: "\<exists>h. 9 \<le> h \<and> h \<le> 17 \<and> ''10:00'' = slotLabel h
      \<and> ?T + 60 * msPerMinute < startOfSlot 180 ?T h"
    by blast
  from t m y s a b show ?thesis by blast
qed

text \<open>
  In a year from 0 to 99 the instants built for the slots lie 1900 years later: at noon
  of 0050-01-01 (day -701265, UTC) all nine slots of that day are offered.
\<close>

lemma fields_in_year_50:
  "getFullYear 0 (12 * msPerHour - 701265 * msPerDay) = 50"
  "getMonth 0 (12 * msPerHour - 701265 * msPerDay) = 0"
  "getDate 0 (12 * msPerHour - 701265 * msPerDay) = 1"
  "toISODate (12 * msPerHour - 701265 * msPerDay) = ''0050-01-01''"
  "newDate 0 50 0 1 0 0 = - 7305 * msPerDay"
  by code_simp+

lemma slots_in_year_50:
  "getAvailableSlots 0 [] (12 * msPerHour - 701265 * msPerDay)
     (12 * msPerHour - 701265 * msPerDay) = timeSlots"
  by (simp add: isToday_def fields_in_year_50 getAvailableSlots_def Let_def timeSlots_eq
      isBooked_def slotTime_labels newDate_hours [of _ _ _ _ "numeral _"])
     (simp add: ms_defs)




text \<open>
  \<^verbatim>\<open>handleDateChange\<close> moves the selected date by whole days and leaves the state as
  it is when the date stepped to would lie before the start of the current local day.
  It looks at the date stepped to only: a selected date that has become a past day
  while the page stayed open is not moved, and from it a step of one day forward is
  refused as long as it ends before today.
\<close>

lemma handleDateChange_not_before_today:
  "handleDateChange tz now days g = g
   \<or> (selectedDate (handleDateChange tz now days g) = selectedDate g + days * msPerDay
      \<and> setHours tz now 0 0 0 0 \<le> selectedDate (handleDateChange tz now days g))"
  by (simp add: handleDateChange_def Let_def setDate_add)

lemma midnight_2022_01_11:
  "setHours 180 (19003 * msPerDay + 12 * msPerHour) 0 0 0 0 = 19003 * msPerDay + 3 * msPerHour"
  by code_simp

lemma stale_page_step_refused:
  "handleDateChange 180 (19003 * msPerDay + 12 * msPerHour) 1
     (initialGrid (19000 * msPerDay + 12 * msPerHour))
   = initialGrid (19000 * msPerDay + 12 * msPerHour)"
  by (simp add: handleDateChange_def Let_def setDate_add midnight_2022_01_11
      initialGrid_def)
     (simp add: ms_defs)

section \<open>Properties of the booking\<close>

text \<open>The three ways a run of \<^verbatim>\<open>handlePaymentAndBooking\<close> with a selected time ends.\<close>

lemma handlePaymentAndBooking_cancelled:
  "selectedTime g = Some t \<Longrightarrow> t \<noteq> [] \<Longrightarrow>
     handlePaymentAndBooking p False outcome g store =
       (g\<lparr>error := PaymentCancelledMessage\<rparr>, store, None)"
  by (simp add: handlePaymentAndBooking_def beforeAwait_def)

lemma handlePaymentAndBooking_written:
  "selectedTime g = Some t \<Longrightarrow> t \<noteq> [] \<Longrightarrow>
     handlePaymentAndBooking p True (Written newId ts) g store =
       (g\<lparr>isBooking := False, error := NoMessage\<rparr>,
        store @ [(newAppointment p g t)\<lparr>docId := newId, createdAt := Some ts\<rparr>],
        Some ((newAppointment p g t)\<lparr>docId := newId\<rparr>))"
  by (simp add: handlePaymentAndBooking_def beforeAwait_def addDoc_def afterAwait_def)

lemma handlePaymentAndBooking_rejected:
  "selectedTime g = Some t \<Longrightarrow> t \<noteq> [] \<Longrightarrow>
     handlePaymentAndBooking p True Rejected g store =
       (g\<lparr>isBooking := False, error := SaveFailedMessage\<rparr>, store, None)"
  by (simp add: handlePaymentAndBooking_def beforeAwait_def addDoc_def afterAwait_def)




lemmas booking_eval = handlePaymentAndBooking_def beforeAwait_def addDoc_def afterAwait_def
  newAppointment_def handleSelectTime_def initialGrid_def

text \<open>
  Claim C9. When a time is selected and the payment dialog reports failure or
  cancellation, the run ends with the message of the cancelled payment
  (\<open>PaymentCancelledMessage\<close>), hands no document to the store, confirms no booking,
  and leaves the store as it was, whatever the store would have answered.
\<close>

theorem payment_cancelled_no_record:
  "selectedTime g = Some t \<Longrightarrow> t \<noteq> [] \<Longrightarrow>
     handlePaymentAndBooking p False outcome g store =
       (g\<lparr>error := PaymentCancelledMessage\<rparr>, store, None)
     \<and> beforeAwait p False g = (g\<lparr>error := PaymentCancelledMessage\<rparr>, None)"
  by (simp add: handlePaymentAndBooking_def beforeAwait_def)

theorem payment_cancelled_no_record_witness:
  "selectedTime (handleSelectTime ''14:00'' (initialGrid (19000 * msPerDay + 11 * msPerHour)))
     = Some ''14:00''
   \<and> handlePaymentAndBooking
       \<lparr>propsUserId = ''u1'', profileName = ''Ana Lima'', profileWhatsapp = ''11987654321''\<rparr>
       False (Written ''docA'' 1641639700000)
       (handleSelectTime ''14:00'' (initialGrid (19000 * msPerDay + 11 * msPerHour))) []
     = (\<lparr>selectedDate = 19000 * msPerDay + 11 * msPerHour, selectedTime = Some ''14:00'',
         appointments = [], isBooking = False, error = PaymentCancelledMessage\<rparr>, [], None)"
proof -
  let ?g = "handleSelectTime ''14:00'' (initialGrid (19000 * msPerDay + 11 * msPerHour))"
  have h: "selectedTime ?g = Some ''14:00''"
    by (simp add: handleSelectTime_def)
  have n: "''14:00'' \<noteq> []" by simp
  from payment_cancelled_no_record [OF h n] h show ?thesis
    by (simp add: handleSelectTime_def initialGrid_def)
qed




text \<open>
  The slot (2022-01-08, 14:00) is occupied in the store; a client whose cache does not
  show it yet confirms 14:00. The record is written and the booking is confirmed, with no
  message.
\<close>

theorem occupied_slot_counterexample:
  "isBooked
     [\<lparr>docId = ''docA'', userId = ''u1'', userName = ''Ana Lima'',
       whatsapp = ''11987654321'', date = ''2022-01-08'', time = ''14:00'',
       service = CorteClassico, price = 10, paid = True,
       createdAt = Some 1641639700000\<rparr>]
     (toISODate (19000 * msPerDay + 11 * msPerHour)) ''14:00''
   \<and> handlePaymentAndBooking
       \<lparr>propsUserId = ''u2'', profileName = ''Bia Souza'', profileWhatsapp = ''11912345678''\<rparr>
       True (Written ''docB'' 1641639800000)
       \<lparr>selectedDate = 19000 * msPerDay + 11 * msPerHour, selectedTime = Some ''14:00'',
         appointments = [], isBooking = False, error = NoMessage\<rparr>
       [\<lparr>docId = ''docA'', userId = ''u1'', userName = ''Ana Lima'',
          whatsapp = ''11987654321'', date = ''2022-01-08'', time = ''14:00'',
          service = CorteClassico, price = 10, paid = True,
          createdAt = Some 1641639700000\<rparr>]
     = (\<lparr>selectedDate = 19000 * msPerDay + 11 * msPerHour, selectedTime = Some ''14:00'',
         appointments = [], isBooking = False, error = NoMessage\<rparr>,
        [\<lparr>docId = ''docA'', userId = ''u1'', userName = ''Ana Lima'',
          whatsapp = ''11987654321'', date = ''2022-01-08'', time = ''14:00'',
          service = CorteClassico, price = 10, paid = True,
          createdAt = Some 1641639700000\<rparr>,
         \<lparr>docId = ''docB'', userId = ''u2'', userName = ''Bia Souza'',
          whatsapp = ''11912345678'', date = ''2022-01-08'', time = ''14:00'',
          service = CorteClassico, price = 10, paid = True,
          createdAt = Some 1641639800000\<rparr>],
        Some \<lparr>docId = ''docB'', userId = ''u2'', userName = ''Bia Souza'',
          whatsapp = ''11912345678'', date = ''2022-01-08'', time = ''14:00'',
          service = CorteClassico, price = 10, paid = True, createdAt = None\<rparr>)"
  by (simp add: booking_eval isBooked_def fields_at_0800)

text \<open>
  Claim C2, amended. When a booking is committed for a slot that a stored record
  already occupies, the commit is not checked against the stored records: if the store
  accepts the write, the record is written and the booking is confirmed with no
  message. The only failure of a commit is a failed write: it ends the run with the
  message of the failed save (\<open>SaveFailedMessage\<close>), writes no record, and is not
  retried (after the failure no write is pending and none has been issued anew).
\<close>

theorem occupied_slot_is_written:
  "selectedTime g = Some t \<Longrightarrow> t \<noteq> [] \<Longrightarrow>
   isBooked store (toISODate (selectedDate g)) t \<Longrightarrow>
     handlePaymentAndBooking p True (Written newId ts) g store =
       (g\<lparr>isBooking := False, error := NoMessage\<rparr>,
        store @ [(newAppointment p g t)\<lparr>docId := newId, createdAt := Some ts\<rparr>],
        Some ((newAppointment p g t)\<lparr>docId := newId\<rparr>))
     \<and> handlePaymentAndBooking p True Rejected g store =
       (g\<lparr>isBooking := False, error := SaveFailedMessage\<rparr>, store, None)
     \<and> step tz p now (WriteSettled Rejected)
          \<lparr>pageGrid = g\<lparr>isBooking := True, error := NoMessage\<rparr>, pageStore = store,
           pending = [newAppointment p g t], issued = n, confirmedBookings = bs\<rparr>
        = \<lparr>pageGrid = g\<lparr>isBooking := False, error := SaveFailedMessage\<rparr>, pageStore = store,
           pending = [], issued = n, confirmedBookings = bs\<rparr>"
  by (simp add: handlePaymentAndBooking_written handlePaymentAndBooking_rejected
      step_def addDoc_def afterAwait_def)

theorem occupied_slot_is_written_witness:
  "isBooked
     [\<lparr>docId = ''docA'', userId = ''u1'', userName = ''Ana Lima'',
       whatsapp = ''11987654321'', date = ''2022-01-08'', time = ''14:00'',
       service = CorteClassico, price = 10, paid = True,
       createdAt = Some 1641639700000\<rparr>]
     (toISODate (19000 * msPerDay + 11 * msPerHour)) ''14:00''
   \<and> handlePaymentAndBooking
       \<lparr>propsUserId = ''u2'', profileName = ''Bia Souza'', profileWhatsapp = ''11912345678''\<rparr>
       True Rejected
       \<lparr>selectedDate = 19000 * msPerDay + 11 * msPerHour, selectedTime = Some ''14:00'',
         appointments = [], isBooking = False, error = NoMessage\<rparr>
       [\<lparr>docId = ''docA'', userId = ''u1'', userName = ''Ana Lima'',
          whatsapp = ''11987654321'', date = ''2022-01-08'', time = ''14:00'',
          service = CorteClassico, price = 10, paid = True,
          createdAt = Some 1641639700000\<rparr>]
     = (\<lparr>selectedDate = 19000 * msPerDay + 11 * msPerHour, selectedTime = Some ''14:00'',
         appointments = [], isBooking = False, error = SaveFailedMessage\<rparr>,
        [\<lparr>docId = ''docA'', userId = ''u1'', userName = ''Ana Lima'',
          whatsapp = ''11987654321'', date = ''2022-01-08'', time = ''14:00'',
          service = CorteClassico, price = 10, paid = True,
          createdAt = Some 1641639700000\<rparr>],
        None)"
proof -
  let ?g = "\<lparr>selectedDate = 19000 * msPerDay + 11 * msPerHour,
       selectedTime = Some ''14:00'', appointments = [], isBooking = False,
       error = NoMessage\<rparr>"
  let ?a = "\<lparr>docId = ''docA'', userId = ''u1'', userName = ''Ana Lima'',
       whatsapp = ''11987654321'', date = ''2022-01-08'', time = ''14:00'',
       service = CorteClassico, price = 10, paid = True,
       createdAt = Some 1641639700000\<rparr>"
  have h: "selectedTime ?g = Some ''14:00''" by simp
  have n: "''14:00'' \<noteq> []" by simp
  have b: "isBooked [?a] (toISODate (selectedDate ?g)) ''14:00''"
    by (simp add: isBooked_def fields_at_0800)
  from occupied_slot_is_written [OF h n b] b show ?thesis by simp
qed

section \<open>Properties of the machine of events\<close>

lemma inFlightInv_initial: "inFlightInv (initialPage now store)"
  by (simp add: inFlightInv_def initialPage_def initialGrid_def)

lemma inFlightInv_step: "inFlightInv s \<Longrightarrow> inFlightInv (step tz p now ev s)"
  by (cases ev)
     (auto simp: inFlightInv_def step_def onSnapshot_def handleDateChange_def Let_def
        handleSelectTime_def confirmEnabled_def beforeAwait_def addDoc_def afterAwait_def
        split: option.splits list.splits write_outcome.splits if_splits prod.splits)

lemma inFlightInv_run: "inFlightInv s \<Longrightarrow> inFlightInv (run tz p evs s)"
  by (induction evs arbitrary: s) (auto simp: inFlightInv_step)

lemma confirm_while_booking: "isBooking (pageGrid s) \<Longrightarrow> step tz p now (ConfirmClick c) s = s"
  by (simp add: step_def confirmEnabled_def)

lemma confirm_issues_at_most_one:
  "issued (step tz p now (ConfirmClick c) s) \<le> issued s + 1"
  by (auto simp: step_def split: prod.splits option.splits)

text \<open>
  Claim C7. In every state the component reaches from its mount by any sequence of
  events, at most one write is in flight, and one is in flight exactly when
  \<^verbatim>\<open>isBooking\<close> is true. A click on the confirm button while \<^verbatim>\<open>isBooking\<close> is
  true changes nothing, so it starts no second write; and a click issues at most one
  write in any state.
\<close>

theorem one_commit_in_flight:
  "s = run tz p evs (initialPage now0 store0) \<Longrightarrow>
     length (pending s) \<le> 1
     \<and> (isBooking (pageGrid s) \<longleftrightarrow> pending s \<noteq> [])
     \<and> (isBooking (pageGrid s) \<longrightarrow> step tz p now (ConfirmClick c) s = s)
     \<and> issued (step tz p now (ConfirmClick c) s) \<le> issued s + 1"
proof -
  assume s: "s = run tz p evs (initialPage now0 store0)"
  have "inFlightInv s"
    unfolding s by (rule inFlightInv_run) (rule inFlightInv_initial)
  then have "length (pending s) \<le> 1" "isBooking (pageGrid s) \<longleftrightarrow> pending s \<noteq> []"
    by (simp_all add: inFlightInv_def)
  then show ?thesis
    using confirm_while_booking [of s tz p now c] confirm_issues_at_most_one [of tz p now c s]
    by blast
qed

text \<open>A time is selected and the button is clicked twice before the write settles.\<close>

lemma run_two_clicks:
  "run 180
     \<lparr>propsUserId = ''u1'', profileName = ''Ana Lima'', profileWhatsapp = ''11987654321''\<rparr>
     [(19000 * msPerDay + 11 * msPerHour, SelectTime ''14:00''),
      (19000 * msPerDay + 11 * msPerHour + 1000, ConfirmClick True),
      (19000 * msPerDay + 11 * msPerHour + 1200, ConfirmClick True)]
     (initialPage (19000 * msPerDay + 11 * msPerHour) [])
   = \<lparr>pageGrid = \<lparr>selectedDate = 19000 * msPerDay + 11 * msPerHour,
         selectedTime = Some ''14:00'', appointments = [], isBooking = True,
         error = NoMessage\<rparr>,
       pageStore = [],
       pending = [\<lparr>docId = [], userId = ''u1'', userName = ''Ana Lima'',
          whatsapp = ''11987654321'', date = ''2022-01-08'', time = ''14:00'',
          service = CorteClassico, price = 10, paid = True, createdAt = None\<rparr>],
       issued = 1, confirmedBookings = []\<rparr>"
  by (simp add: step_def confirmEnabled_def initialPage_def initialGrid_def
      handleSelectTime_def beforeAwait_def newAppointment_def fields_at_0800)

theorem one_commit_in_flight_witness:
  "pending (run 180
     \<lparr>propsUserId = ''u1'', profileName = ''Ana Lima'', profileWhatsapp = ''11987654321''\<rparr>
     [(19000 * msPerDay + 11 * msPerHour, SelectTime ''14:00''),
      (19000 * msPerDay + 11 * msPerHour + 1000, ConfirmClick True),
      (19000 * msPerDay + 11 * msPerHour + 1200, ConfirmClick True)]
     (initialPage (19000 * msPerDay + 11 * msPerHour) []))
   = [\<lparr>docId = [], userId = ''u1'', userName = ''Ana Lima'',
          whatsapp = ''11987654321'', date = ''2022-01-08'', time = ''14:00'',
          service = CorteClassico, price = 10, paid = True, createdAt = None\<rparr>]
   \<and> issued (run 180
     \<lparr>propsUserId = ''u1'', profileName = ''Ana Lima'', profileWhatsapp = ''11987654321''\<rparr>
     [(19000 * msPerDay + 11 * msPerHour, SelectTime ''14:00''),
      (19000 * msPerDay + 11 * msPerHour + 1000, ConfirmClick True),
      (19000 * msPerDay + 11 * msPerHour + 1200, ConfirmClick True)]
     (initialPage (19000 * msPerDay + 11 * msPerHour) [])) = 1
   \<and> isBooking (pageGrid (run 180
     \<lparr>propsUserId = ''u1'', profileName = ''Ana Lima'', profileWhatsapp = ''11987654321''\<rparr>
     [(19000 * msPerDay + 11 * msPerHour, SelectTime ''14:00''),
      (19000 * msPerDay + 11 * msPerHour + 1000, ConfirmClick True),
      (19000 * msPerDay + 11 * msPerHour + 1200, ConfirmClick True)]
     (initialPage (19000 * msPerDay + 11 * msPerHour) [])))
   \<and> issued (step 180
     \<lparr>propsUserId = ''u1'', profileName = ''Ana Lima'', profileWhatsapp = ''11987654321''\<rparr>
     (19000 * msPerDay + 11 * msPerHour + 1400) (ConfirmClick True)
     (run 180
     \<lparr>propsUserId = ''u1'', profileName = ''Ana Lima'', profileWhatsapp = ''11987654321''\<rparr>
     [(19000 * msPerDay + 11 * msPerHour, SelectTime ''14:00''),
      (19000 * msPerDay + 11 * msPerHour + 1000, ConfirmClick True),
      (19000 * msPerDay + 11 * msPerHour + 1200, ConfirmClick True)]
     (initialPage (19000 * msPerDay + 11 * msPerHour) []))) = 1"
  using one_commit_in_flight [OF refl, of 180
     "\<lparr>propsUserId = ''u1'', profileName = ''Ana Lima'', profileWhatsapp = ''11987654321''\<rparr>"
     "[(19000 * msPerDay + 11 * msPerHour, SelectTime ''14:00''),
      (19000 * msPerDay + 11 * msPerHour + 1000, ConfirmClick True),
      (19000 * msPerDay + 11 * msPerHour + 1200, ConfirmClick True)]"
     "19000 * msPerDay + 11 * msPerHour" "[]"
     "19000 * msPerDay + 11 * msPerHour + 1400" True]
  unfolding run_two_clicks by simp

section \<open>Properties of the upcoming appointments\<close>

text \<open>
  After the second filter every \<open>dateTime\<close> is valid, and there the comparator orders
  by \<open>timeValue\<close>: the sort is the stable insertion sort by that key.
\<close>

lemma compareDateTime_valid:
  "snd a \<noteq> None \<Longrightarrow> snd b \<noteq> None \<Longrightarrow>
     compareDateTime a b \<le> 0 \<longleftrightarrow> timeValue a \<le> timeValue b"
  by (auto simp: compareDateTime_def timeValue_def)

lemma insertSorted_insort_key:
  "snd x \<noteq> None \<Longrightarrow> \<forall>y \<in> set ys. snd y \<noteq> None \<Longrightarrow>
     insertSorted compareDateTime x ys = insort_key timeValue x ys"
  by (induction ys) (simp_all add: compareDateTime_valid)

lemma sortWith_sort_key:
  "\<forall>y \<in> set ys. snd y \<noteq> None \<Longrightarrow> sortWith compareDateTime ys = sort_key timeValue ys"
proof (induction ys)
  case Nil
  then show ?case by (simp add: sortWith_def)
next
  case (Cons y ys)
  then have "sortWith compareDateTime ys = sort_key timeValue ys" by simp
  moreover have "\<forall>z \<in> set (sort_key timeValue ys). snd z \<noteq> None"
    using Cons.prems by simp
  ultimately show ?case
    using Cons.prems by (simp add: sortWith_def sort_key_def insertSorted_insort_key)
qed

lemma upcoming_candidates:
  "filter (\<lambda>(app, dateTime). case dateTime of None \<Rightarrow> False | Some t \<Rightarrow> t \<ge> now)
          (map (\<lambda>app. (app, newDateOf (date app @ ''T'' @ time app @ '':00'')))
             (filter (\<lambda>app. userId app = uid) apps))
   = map (attachDateTime newDateOf) (filter (isUpcoming newDateOf uid now) apps)"
  by (induction apps) (auto simp: attachDateTime_def isUpcoming_def split: option.splits)

lemma upcomingAppointments_sort_key:
  "upcomingAppointments newDateOf uid apps now =
     sort_key timeValue (map (attachDateTime newDateOf) (filter (isUpcoming newDateOf uid now) apps))"
proof -
  have "\<forall>y \<in> set (map (attachDateTime newDateOf) (filter (isUpcoming newDateOf uid now) apps)). snd y \<noteq> None"
    by (auto simp: attachDateTime_def isUpcoming_def split: option.splits)
  then show ?thesis
    unfolding upcomingAppointments_def upcoming_candidates
    by (rule sortWith_sort_key)
qed

lemma upcoming_mset:
  "mset (map fst (upcomingAppointments newDateOf uid apps now)) =
     mset (filter (isUpcoming newDateOf uid now) apps)"
proof -
  have "mset (map fst (upcomingAppointments newDateOf uid apps now)) =
          image_mset fst (mset (map (attachDateTime newDateOf) (filter (isUpcoming newDateOf uid now) apps)))"
    by (simp add: upcomingAppointments_sort_key)
  also have "\<dots> = mset (filter (isUpcoming newDateOf uid now) apps)"
    by (simp add: attachDateTime_def image_mset.compositionality comp_def del: mset_filter)
  finally show ?thesis .
qed

lemma upcoming_elems:
  "x \<in> set (upcomingAppointments newDateOf uid apps now) \<Longrightarrow>
     x = attachDateTime newDateOf (fst x) \<and> isUpcoming newDateOf uid now (fst x)"
  by (auto simp: upcomingAppointments_sort_key attachDateTime_def)

lemma upcoming_sorted:
  "sorted_wrt startsNoLater (upcomingAppointments newDateOf uid apps now)"
proof -
  let ?out = "upcomingAppointments newDateOf uid apps now"
  have s: "sorted (map timeValue ?out)"
    by (simp add: upcomingAppointments_sort_key)
  have v: "\<forall>x \<in> set ?out. snd x \<noteq> None"
    by (auto simp: upcomingAppointments_sort_key attachDateTime_def isUpcoming_def split: option.splits)
  have "sorted_wrt (\<lambda>a b. timeValue a \<le> timeValue b) ?out"
    using s by (simp add: sorted_map)
  then show ?thesis
    by (rule sorted_wrt_mono_rel [rotated])
       (use v in \<open>auto simp: startsNoLater_def timeValue_def split: option.splits\<close>)
qed

lemma upcoming_stable:
  "map fst (filter (\<lambda>a. snd a = Some k) (upcomingAppointments newDateOf uid apps now)) =
     filter (\<lambda>app. isUpcoming newDateOf uid now app \<and> newDateOf (date app @ ''T'' @ time app @ '':00'') = Some k) apps"
proof -
  let ?cand = "map (attachDateTime newDateOf) (filter (isUpcoming newDateOf uid now) apps)"
  have v: "\<forall>x \<in> set ?cand. snd x \<noteq> None"
    by (auto simp: attachDateTime_def isUpcoming_def split: option.splits)
  have "filter (\<lambda>a. snd a = Some k) (sort_key timeValue ?cand)
        = filter (\<lambda>a. snd a = Some k) (filter (\<lambda>a. timeValue a = k) (sort_key timeValue ?cand))"
    by (auto simp: timeValue_def intro!: filter_cong)
  also have "\<dots> = filter (\<lambda>a. snd a = Some k) (filter (\<lambda>a. timeValue a = k) ?cand)"
    by (simp only: sort_key_stable)
  also have "\<dots> = filter (\<lambda>a. snd a = Some k) ?cand"
    by (auto simp: timeValue_def intro!: filter_cong)
  finally have "filter (\<lambda>a. snd a = Some k) (upcomingAppointments newDateOf uid apps now)
        = filter (\<lambda>a. snd a = Some k) ?cand"
    by (simp only: upcomingAppointments_sort_key)
  then show ?thesis
    by (simp add: filter_map comp_def attachDateTime_def)
qed


lemma upcoming_attached:
  "list_all (\<lambda>x. snd x = newDateOf (date (fst x) @ ''T'' @ time (fst x) @ '':00''))
     (upcomingAppointments newDateOf uid apps now)"
  unfolding list_all_iff
proof
  fix x assume "x \<in> set (upcomingAppointments newDateOf uid apps now)"
  then have "x = attachDateTime newDateOf (fst x)" by (simp add: upcoming_elems)
  then have "snd x = snd (attachDateTime newDateOf (fst x))" by simp
  then show "snd x = newDateOf (date (fst x) @ ''T'' @ time (fst x) @ '':00'')"
    by (simp add: attachDateTime_def)
qed

text \<open>
  The Dates read in the examples: 14:00 local time on 2022-01-08 is 17:00 UTC.
\<close>

lemma datesRead_values:
  "datesRead ''2022-01-08T14:00:00'' = Some (19000 * msPerDay + 17 * msPerHour)"
  "datesRead ''2022-01-08T15:00:00'' = Some (19000 * msPerDay + 18 * msPerHour)"
  "datesRead ''2022-01-09T09:00:00'' = Some (19001 * msPerDay + 12 * msPerHour)"
  "datesRead ''2022-01-07T16:00:00'' = Some (18999 * msPerDay + 19 * msPerHour)"
  by code_simp+

lemmas upcoming_eval = upcomingAppointments_def sortWith_def compareDateTime_def
  datesRead_values

text \<open>
  Two records of one client for the same slot; the first in the list was created
  later. The result keeps the order of the list: the record created later comes first.
\<close>

theorem tie_order_counterexample:
  "upcomingAppointments datesRead ''u1''
     [\<lparr>docId = ''docA'', userId = ''u1'', userName = ''Ana Lima'',
       whatsapp = ''11987654321'', date = ''2022-01-08'', time = ''14:00'',
       service = CorteClassico, price = 10, paid = True,
       createdAt = Some 1641639800000\<rparr>,
      \<lparr>docId = ''docB'', userId = ''u1'', userName = ''Ana Lima'',
       whatsapp = ''11987654321'', date = ''2022-01-08'', time = ''14:00'',
       service = CorteClassico, price = 10, paid = True,
       createdAt = Some 1641639700000\<rparr>]
     (19000 * msPerDay + 11 * msPerHour)
   = [(\<lparr>docId = ''docA'', userId = ''u1'', userName = ''Ana Lima'',
        whatsapp = ''11987654321'', date = ''2022-01-08'', time = ''14:00'',
        service = CorteClassico, price = 10, paid = True,
        createdAt = Some 1641639800000\<rparr>, Some (19000 * msPerDay + 17 * msPerHour)),
      (\<lparr>docId = ''docB'', userId = ''u1'', userName = ''Ana Lima'',
        whatsapp = ''11987654321'', date = ''2022-01-08'', time = ''14:00'',
        service = CorteClassico, price = 10, paid = True,
        createdAt = Some 1641639700000\<rparr>, Some (19000 * msPerDay + 17 * msPerHour))]
   \<and> (1641639700000::int) < 1641639800000"
  by (simp add: upcoming_eval) (simp add: ms_defs)

text \<open>
  Claim C8, amended. For every client id, every list of appointment records, every
  clock and every way the engine reads a text as a Date, the upcoming appointments are
  exactly the records (with multiplicity) whose \<open>userId\<close> is the client's and whose
  slot start instant, the Date read from \<^verbatim>\<open>date + 'T' + time + ':00'\<close>, is valid and
  at or after \<open>now\<close>, each with that instant as its \<open>dateTime\<close>, sorted ascending
  by start instant; records with the same start instant keep the order they have in
  the input list (\<open>createdAt\<close> is not consulted). Records of other clients and
  records that start before \<open>now\<close> are not in the result.
\<close>

theorem upcomingAppointments_stable_sorted:
  "mset (map fst (upcomingAppointments newDateOf uid apps now))
     = mset (filter (isUpcoming newDateOf uid now) apps)
   \<and> list_all (\<lambda>x. snd x = newDateOf (date (fst x) @ ''T'' @ time (fst x) @ '':00''))
        (upcomingAppointments newDateOf uid apps now)
   \<and> sorted_wrt startsNoLater (upcomingAppointments newDateOf uid apps now)
   \<and> map fst (filter (\<lambda>a. snd a = Some k) (upcomingAppointments newDateOf uid apps now))
     = filter (\<lambda>app. isUpcoming newDateOf uid now app
                 \<and> newDateOf (date app @ ''T'' @ time app @ '':00'') = Some k) apps"
  using upcoming_mset [of newDateOf uid apps now] upcoming_attached [of newDateOf uid apps now]
    upcoming_sorted [of newDateOf uid apps now] upcoming_stable [of k newDateOf uid apps now]
  by blast

text \<open>
  Four records at 08:00 local time on 2022-01-08: one of the client for the next day,
  one of another client, one of the client for 14:00 today, one of the client for the
  day before.
\<close>

lemma upcoming_example:
  "upcomingAppointments datesRead ''u1''
     [\<lparr>docId = ''docC'', userId = ''u1'', userName = ''Ana Lima'',
       whatsapp = ''11987654321'', date = ''2022-01-09'', time = ''09:00'',
       service = CorteClassico, price = 10, paid = True,
       createdAt = Some 1641639900000\<rparr>,
      \<lparr>docId = ''docD'', userId = ''u2'', userName = ''Bia Souza'',
       whatsapp = ''11912345678'', date = ''2022-01-08'', time = ''15:00'',
       service = CorteClassico, price = 10, paid = True,
       createdAt = Some 1641639600000\<rparr>,
      \<lparr>docId = ''docE'', userId = ''u1'', userName = ''Ana Lima'',
       whatsapp = ''11987654321'', date = ''2022-01-08'', time = ''14:00'',
       service = CorteClassico, price = 10, paid = True,
       createdAt = Some 1641639700000\<rparr>,
      \<lparr>docId = ''docF'', userId = ''u1'', userName = ''Ana Lima'',
       whatsapp = ''11987654321'', date = ''2022-01-07'', time = ''16:00'',
       service = CorteClassico, price = 10, paid = True,
       createdAt = Some 1641500000000\<rparr>]
     (19000 * msPerDay + 11 * msPerHour)
   = [(\<lparr>docId = ''docE'', userId = ''u1'', userName = ''Ana Lima'',
        whatsapp = ''11987654321'', date = ''2022-01-08'', time = ''14:00'',
        service = CorteClassico, price = 10, paid = True,
        createdAt = Some 1641639700000\<rparr>, Some (19000 * msPerDay + 17 * msPerHour)),
      (\<lparr>docId = ''docC'', userId = ''u1'', userName = ''Ana Lima'',
        whatsapp = ''11987654321'', date = ''2022-01-09'', time = ''09:00'',
        service = CorteClassico, price = 10, paid = True,
        createdAt = Some 1641639900000\<rparr>, Some (19001 * msPerDay + 12 * msPerHour))]"
  by (simp add: upcoming_eval) (simp add: ms_defs)

theorem upcomingAppointments_stable_sorted_witness:
  "map (docId \<circ> fst) (upcomingAppointments datesRead ''u1''
     [\<lparr>docId = ''docC'', userId = ''u1'', userName = ''Ana Lima'',
       whatsapp = ''11987654321'', date = ''2022-01-09'', time = ''09:00'',
       service = CorteClassico, price = 10, paid = True,
       createdAt = Some 1641639900000\<rparr>,
      \<lparr>docId = ''docD'', userId = ''u2'', userName = ''Bia Souza'',
       whatsapp = ''11912345678'', date = ''2022-01-08'', time = ''15:00'',
       service = CorteClassico, price = 10, paid = True,
       createdAt = Some 1641639600000\<rparr>,
      \<lparr>docId = ''docE'', userId = ''u1'', userName = ''Ana Lima'',
       whatsapp = ''11987654321'', date = ''2022-01-08'', time = ''14:00'',
       service = CorteClassico, price = 10, paid = True,
       createdAt = Some 1641639700000\<rparr>,
      \<lparr>docId = ''docF'', userId = ''u1'', userName = ''Ana Lima'',
       whatsapp = ''11987654321'', date = ''2022-01-07'', time = ''16:00'',
       service = CorteClassico, price = 10, paid = True,
       createdAt = Some 1641500000000\<rparr>]
     (19000 * msPerDay + 11 * msPerHour)) = [''docE'', ''docC'']
   \<and> sorted_wrt startsNoLater (upcomingAppointments datesRead ''u1''
     [\<lparr>docId = ''docC'', userId = ''u1'', userName = ''Ana Lima'',
       whatsapp = ''11987654321'', date = ''2022-01-09'', time = ''09:00'',
       service = CorteClassico, price = 10, paid = True,
       createdAt = Some 1641639900000\<rparr>,
      \<lparr>docId = ''docD'', userId = ''u2'', userName = ''Bia Souza'',
       whatsapp = ''11912345678'', date = ''2022-01-08'', time = ''15:00'',
       service = CorteClassico, price = 10, paid = True,
       createdAt = Some 1641639600000\<rparr>,
      \<lparr>docId = ''docE'', userId = ''u1'', userName = ''Ana Lima'',
       whatsapp = ''11987654321'', date = ''2022-01-08'', time = ''14:00'',
       service = CorteClassico, price = 10, paid = True,
       createdAt = Some 1641639700000\<rparr>,
      \<lparr>docId = ''docF'', userId = ''u1'', userName = ''Ana Lima'',
       whatsapp = ''11987654321'', date = ''2022-01-07'', time = ''16:00'',
       service = CorteClassico, price = 10, paid = True,
       createdAt = Some 1641500000000\<rparr>]
     (19000 * msPerDay + 11 * msPerHour))"
proof -
  let ?apps = "[\<lparr>docId = ''docC'', userId = ''u1'', userName = ''Ana Lima'',
       whatsapp = ''11987654321'', date = ''2022-01-09'', time = ''09:00'',
       service = CorteClassico, price = 10, paid = True,
       createdAt = Some 1641639900000\<rparr>,
      \<lparr>docId = ''docD'', userId = ''u2'', userName = ''Bia Souza'',
       whatsapp = ''11912345678'', date = ''2022-01-08'', time = ''15:00'',
       service = CorteClassico, price = 10, paid = True,
       createdAt = Some 1641639600000\<rparr>,
      \<lparr>docId = ''docE'', userId = ''u1'', userName = ''Ana Lima'',
       whatsapp = ''11987654321'', date = ''2022-01-08'', time = ''14:00'',
       service = CorteClassico, price = 10, paid = True,
       createdAt = Some 1641639700000\<rparr>,
      \<lparr>docId = ''docF'', userId = ''u1'', userName = ''Ana Lima'',
       whatsapp = ''11987654321'', date = ''2022-01-07'', time = ''16:00'',
       service = CorteClassico, price = 10, paid = True,
       createdAt = Some 1641500000000\<rparr>]"
  let ?out = "upcomingAppointments datesRead ''u1'' ?apps (19000 * msPerDay + 11 * msPerHour)"
  from upcomingAppointments_stable_sorted
    [of datesRead "''u1''" ?apps "19000 * msPerDay + 11 * msPerHour"]
  have "sorted_wrt startsNoLater ?out"
    by blast
  moreover have "map (docId \<circ> fst) ?out = [''docE'', ''docC'']"
    by (simp add: upcoming_example)
  ultimately show ?thesis
    by blast
qed

section \<open>The day of a booking and the day of today\<close>

lemma isBooked_append:
  "isBooked (apps @ [r]) ds t \<longleftrightarrow> isBooked apps ds t \<or> (date r = ds \<and> time r = t)"
  by (auto simp: isBooked_def list_ex_iff)

lemma getAvailableSlots_append:
  "getAvailableSlots tz (apps @ [r]) d now =
     (if toISODate d = date r then filter (\<lambda>s. s \<noteq> time r) (getAvailableSlots tz apps d now)
      else getAvailableSlots tz apps d now)"
  unfolding getAvailableSlots_filter
  by (auto simp: isBooked_append intro!: filter_cong)

text \<open>
  Claim C10. The \<open>date\<close> of a newly committed record is the UTC day text of the
  selected Date, and two Dates have the same such text exactly when their UTC days are
  equal. The available slots are the nine slots without those that a record books
  under the UTC day text of the Date asked about and, when the local day of that Date
  is the local day of the clock, and only then, without those whose start instant is
  not more than 60 minutes after \<open>now\<close>; the start instant of a slot is its hour,
  local time, on the local day of the Date (for a local year outside 0 to 99). So
  committing a record removes its time from the available slots of exactly the Dates
  that share its UTC day and changes nothing for the others, while \<^verbatim>\<open>isToday\<close> holds
  exactly when the local days are equal. For a clock whose local day differs from its
  UTC day, asking about \<open>now\<close> itself applies the lead-time rule, on the local day,
  and matches the records against a text that is not the text of that local day: a
  record dated with the text of the local day does not hide its slot.
\<close>

theorem booking_day_utc_today_local:
  "date (newAppointment p g t) = toISODate (selectedDate g)
   \<and> (toISODate d = toISODate (selectedDate g) \<longleftrightarrow> Day d = Day (selectedDate g))
   \<and> getAvailableSlots tz apps d now =
       filter (\<lambda>s. \<not> isBooked apps (toISODate d) s
                 \<and> (Day (LocalTime tz d) = Day (LocalTime tz now) \<longrightarrow>
                      (\<exists>st. slotTime tz d s = Some st \<and> now + 60 * msPerMinute < st)))
         timeSlots
   \<and> (9 \<le> h \<and> h \<le> 17 \<and> \<not> (0 \<le> getFullYear tz d \<and> getFullYear tz d \<le> 99) \<longrightarrow>
        slotTime tz d (slotLabel h) = Some (startOfSlot tz d h))
   \<and> getAvailableSlots tz
        (apps @ [(newAppointment p g t)\<lparr>docId := newId, createdAt := Some ts\<rparr>]) d now
     = (if Day d = Day (selectedDate g)
        then filter (\<lambda>s. s \<noteq> t) (getAvailableSlots tz apps d now)
        else getAvailableSlots tz apps d now)
   \<and> (isToday tz d now \<longleftrightarrow> Day (LocalTime tz d) = Day (LocalTime tz now))
   \<and> (Day (LocalTime tz now) \<noteq> Day now \<longrightarrow>
        toISODate now \<noteq> toISODate (LocalTime tz now)
        \<and> getAvailableSlots tz apps now now =
            filter (\<lambda>s. \<not> isBooked apps (toISODate now) s
                      \<and> (\<exists>st. slotTime tz now s = Some st \<and> now + 60 * msPerMinute < st))
              timeSlots
        \<and> (\<forall>r. date r = toISODate (LocalTime tz now) \<longrightarrow>
              getAvailableSlots tz (apps @ [r]) now now = getAvailableSlots tz apps now now))"
proof -
  have 1: "date (newAppointment p g t) = toISODate (selectedDate g)"
    by (simp add: newAppointment_def)
  have 2: "toISODate d = toISODate (selectedDate g) \<longleftrightarrow> Day d = Day (selectedDate g)"
    by (rule toISODate_same_day)
  have 3: "getAvailableSlots tz apps e now =
       filter (\<lambda>s. \<not> isBooked apps (toISODate e) s
                 \<and> (Day (LocalTime tz e) = Day (LocalTime tz now) \<longrightarrow>
                      (\<exists>st. slotTime tz e s = Some st \<and> now + 60 * msPerMinute < st)))
         timeSlots" for e
    by (simp add: getAvailableSlots_filter isToday_same_day msPerMinute_def)
  have 4: "slotTime tz d (slotLabel h) = Some (startOfSlot tz d h)"
    if "9 \<le> h \<and> h \<le> 17 \<and> \<not> (0 \<le> getFullYear tz d \<and> getFullYear tz d \<le> 99)"
    using that by (intro slotTime_startOfSlot) simp_all
  have 5: "getAvailableSlots tz
        (apps @ [(newAppointment p g t)\<lparr>docId := newId, createdAt := Some ts\<rparr>]) d now
     = (if Day d = Day (selectedDate g)
        then filter (\<lambda>s. s \<noteq> t) (getAvailableSlots tz apps d now)
        else getAvailableSlots tz apps d now)"
    by (simp add: getAvailableSlots_append newAppointment_def toISODate_same_day)
  have 6: "isToday tz d now \<longleftrightarrow> Day (LocalTime tz d) = Day (LocalTime tz now)"
    by (rule isToday_same_day)
  have 7: "toISODate now \<noteq> toISODate (LocalTime tz now)
        \<and> getAvailableSlots tz apps now now =
            filter (\<lambda>s. \<not> isBooked apps (toISODate now) s
                      \<and> (\<exists>st. slotTime tz now s = Some st \<and> now + 60 * msPerMinute < st))
              timeSlots
        \<and> (\<forall>r. date r = toISODate (LocalTime tz now) \<longrightarrow>
              getAvailableSlots tz (apps @ [r]) now now = getAvailableSlots tz apps now now)"
    if "Day (LocalTime tz now) \<noteq> Day now"
  proof -
    from that have a: "toISODate now \<noteq> toISODate (LocalTime tz now)"
      by (simp add: toISODate_same_day)
    have b: "getAvailableSlots tz apps now now =
            filter (\<lambda>s. \<not> isBooked apps (toISODate now) s
                      \<and> (\<exists>st. slotTime tz now s = Some st \<and> now + 60 * msPerMinute < st))
              timeSlots"
      using 3 [of now] by simp
    from a have c: "\<forall>r. date r = toISODate (LocalTime tz now) \<longrightarrow>
              getAvailableSlots tz (apps @ [r]) now now = getAvailableSlots tz apps now now"
      by (simp add: getAvailableSlots_append)
    from a b c show ?thesis by blast
  qed
  from 1 2 3 [of d] 4 5 6 7 show ?thesis by blast
qed

text \<open>
  At 08:00 local time on Saturday 2022-01-08, nine hours ahead of UTC, it is 23:00 UTC
  of 2022-01-07. Asked about that instant, the slots of today start at 10:00 (09:00
  local time is 00:00 UTC of 2022-01-08, exactly 60 minutes later); a booking made
  then for 14:00 is dated 2022-01-07 and hides 14:00; a record dated 2022-01-08, the
  local day, hides nothing.
\<close>

lemma fields_ahead_of_utc:
  "getFullYear (- 540) (19000 * msPerDay - msPerHour) = 2022"
  "getMonth (- 540) (19000 * msPerDay - msPerHour) = 0"
  "getDate (- 540) (19000 * msPerDay - msPerHour) = 8"
  "toISODate (19000 * msPerDay - msPerHour) = ''2022-01-07''"
  "toDateString (- 540) (19000 * msPerDay - msPerHour) = ''Sat Jan 08 2022''"
  "toISODate (LocalTime (- 540) (19000 * msPerDay - msPerHour)) = ''2022-01-08''"
  "newDate (- 540) 2022 0 8 0 0 = 19000 * msPerDay - 9 * msPerHour"
  by code_simp+

lemma slots_ahead_of_utc:
  "getAvailableSlots (- 540) [] (19000 * msPerDay - msPerHour) (19000 * msPerDay - msPerHour)
   = [''10:00'', ''11:00'', ''12:00'', ''13:00'', ''14:00'', ''15:00'', ''16:00'', ''17:00'']"
  by (simp add: isToday_def fields_ahead_of_utc getAvailableSlots_def Let_def timeSlots_eq
      isBooked_def slotTime_labels newDate_hours [of _ _ _ _ "numeral _"])
     (simp add: ms_defs)

theorem booking_day_utc_today_local_witness:
  "Day (LocalTime (- 540) (19000 * msPerDay - msPerHour)) = 19000
   \<and> Day (19000 * msPerDay - msPerHour) = 18999
   \<and> toDateString (- 540) (19000 * msPerDay - msPerHour) = ''Sat Jan 08 2022''
   \<and> getFullYear (- 540) (19000 * msPerDay - msPerHour) = 2022
   \<and> date (newAppointment
        \<lparr>propsUserId = ''u1'', profileName = ''Ana Lima'', profileWhatsapp = ''11987654321''\<rparr>
        \<lparr>selectedDate = 19000 * msPerDay - msPerHour, selectedTime = Some ''14:00'',
          appointments = [], isBooking = False, error = NoMessage\<rparr> ''14:00'')
       = ''2022-01-07''
   \<and> slotTime (- 540) (19000 * msPerDay - msPerHour) (slotLabel 10)
       = Some (startOfSlot (- 540) (19000 * msPerDay - msPerHour) 10)
   \<and> startOfSlot (- 540) (19000 * msPerDay - msPerHour) 10 = 19000 * msPerDay + msPerHour
   \<and> getAvailableSlots (- 540) []
       (19000 * msPerDay - msPerHour) (19000 * msPerDay - msPerHour)
     = [''10:00'', ''11:00'', ''12:00'', ''13:00'', ''14:00'', ''15:00'', ''16:00'', ''17:00'']
   \<and> getAvailableSlots (- 540)
       ([] @ [(newAppointment
        \<lparr>propsUserId = ''u1'', profileName = ''Ana Lima'', profileWhatsapp = ''11987654321''\<rparr>
        \<lparr>selectedDate = 19000 * msPerDay - msPerHour, selectedTime = Some ''14:00'',
          appointments = [], isBooking = False, error = NoMessage\<rparr> ''14:00'')
         \<lparr>docId := ''docA'', createdAt := Some 1641596500000\<rparr>])
       (19000 * msPerDay - msPerHour) (19000 * msPerDay - msPerHour)
     = [''10:00'', ''11:00'', ''12:00'', ''13:00'', ''15:00'', ''16:00'', ''17:00'']
   \<and> getAvailableSlots (- 540)
       ([] @ [\<lparr>docId = ''docB'', userId = ''u2'', userName = ''Bia Souza'',
          whatsapp = ''11912345678'', date = ''2022-01-08'', time = ''11:00'',
          service = CorteClassico, price = 10, paid = True,
          createdAt = Some 1641500000000\<rparr>])
       (19000 * msPerDay - msPerHour) (19000 * msPerDay - msPerHour)
     = [''10:00'', ''11:00'', ''12:00'', ''13:00'', ''14:00'', ''15:00'', ''16:00'', ''17:00'']"
proof -
  let ?N = "19000 * msPerDay - msPerHour"
  let ?p = "\<lparr>propsUserId = ''u1'', profileName = ''Ana Lima'', profileWhatsapp = ''11987654321''\<rparr>"
  let ?g = "\<lparr>selectedDate = ?N, selectedTime = Some ''14:00'',
          appointments = [], isBooking = False, error = NoMessage\<rparr>"
  let ?b = "\<lparr>docId = ''docB'', userId = ''u2'', userName = ''Bia Souza'',
          whatsapp = ''11912345678'', date = ''2022-01-08'', time = ''11:00'',
          service = CorteClassico, price = 10, paid = True,
          createdAt = Some 1641500000000\<rparr>"
  note inst = booking_day_utc_today_local [where p = ?p and g = ?g and t = "''14:00''"
      and tz = "- 540" and apps = "[]" and newId = "''docA''" and ts = 1641596500000
      and d = ?N and now = ?N and h = 10]
  have l: "Day (LocalTime (- 540) ?N) = 19000" and u: "Day ?N = 18999"
    by (simp_all add: Day_def LocalTime_def ms_defs)
  have y: "getFullYear (- 540) ?N = 2022" by (rule fields_ahead_of_utc)
  have s: "startOfSlot (- 540) ?N 10 = 19000 * msPerDay + msPerHour"
    by (simp add: startOfSlot_def UTC_def MakeDate_def MakeTime_def LocalTime_def Day_def
        ms_defs)
  from inst have "date (newAppointment ?p ?g ''14:00'') = toISODate (selectedDate ?g)"
    by blast
  then have d: "date (newAppointment ?p ?g ''14:00'') = ''2022-01-07''"
    by (simp add: fields_ahead_of_utc)
  from inst y have k: "slotTime (- 540) ?N (slotLabel 10) = Some (startOfSlot (- 540) ?N 10)"
    by simp
  from inst have "getAvailableSlots (- 540)
       ([] @ [(newAppointment ?p ?g ''14:00'')\<lparr>docId := ''docA'', createdAt := Some 1641596500000\<rparr>])
       ?N ?N
     = (if Day ?N = Day (selectedDate ?g)
        then filter (\<lambda>s. s \<noteq> ''14:00'') (getAvailableSlots (- 540) [] ?N ?N)
        else getAvailableSlots (- 540) [] ?N ?N)"
    by blast
  then have a: "getAvailableSlots (- 540)
       ([] @ [(newAppointment ?p ?g ''14:00'')\<lparr>docId := ''docA'', createdAt := Some 1641596500000\<rparr>])
       ?N ?N
     = [''10:00'', ''11:00'', ''12:00'', ''13:00'', ''15:00'', ''16:00'', ''17:00'']"
    unfolding slots_ahead_of_utc by simp
  from l u have ne: "Day (LocalTime (- 540) ?N) \<noteq> Day ?N" by simp
  from inst ne have "\<forall>r. date r = toISODate (LocalTime (- 540) ?N) \<longrightarrow>
      getAvailableSlots (- 540) ([] @ [r]) ?N ?N = getAvailableSlots (- 540) [] ?N ?N"
    by blast
  then have "date ?b = toISODate (LocalTime (- 540) ?N) \<longrightarrow>
      getAvailableSlots (- 540) ([] @ [?b]) ?N ?N = getAvailableSlots (- 540) [] ?N ?N"
    by (rule spec)
  then have b: "getAvailableSlots (- 540) ([] @ [?b]) ?N ?N
     = [''10:00'', ''11:00'', ''12:00'', ''13:00'', ''14:00'', ''15:00'', ''16:00'', ''17:00'']"
    by (simp add: fields_ahead_of_utc slots_ahead_of_utc)
  from l u y d k s a b slots_ahead_of_utc fields_ahead_of_utc(5) show ?thesis by blast
qed

end
